theory Spec2Isabelle
  imports Complex_Main
begin

section \<open>Data model (types.ts)\<close>

text \<open>
  The interfaces of \<^verbatim>\<open>types.ts\<close> as records. A JavaScript \<^verbatim>\<open>number\<close> that carries money,
  a quantity, a stock level or a percentage is an exact rational: rounding of binary
  floating point is not modelled. The two numbering counters are integers, as the settings
  form and the increment by 1 keep them while they stay below 2^53. Field names carry a
  one-letter prefix per interface, because several interfaces share the names \<^verbatim>\<open>id\<close>,
  \<^verbatim>\<open>description\<close>, \<^verbatim>\<open>price\<close> and \<^verbatim>\<open>total\<close>.
\<close>

datatype DocType = presupuesto | entrega

datatype DocStatus = draft | final

datatype LogoPosition = left | center | right

record CompanySettings =
  name :: string
  rif :: string
  address :: string
  phone :: string
  logoUrl :: string
  email :: string
  terms :: string
  paymentConditions :: string
  nextBudgetNumber :: int
  nextDeliveryNumber :: int
  defaultTaxRate :: rat
  currencySymbol :: string
  logoPosition :: LogoPosition
  primaryColor :: string

record Client =
  c_id :: string
  c_name :: string
  c_rif :: string
  c_address :: string
  c_phone :: string

record Product =
  p_id :: string
  p_code :: string
  p_description :: string
  p_price :: rat
  p_stock :: rat
  p_unit :: string

record DocItem =
  i_id :: string
  i_rowId :: string
  i_description :: string
  i_unit :: string
  i_quantity :: rat
  i_price :: rat
  i_total :: rat

text \<open>
  The editor holds a \<^verbatim>\<open>Partial<Document>\<close>, and \<^verbatim>\<open>handleSaveDocument\<close> turns it into a
  \<^verbatim>\<open>Document\<close> with a type cast only, which is erased at run time. So every field of the
  object that is saved may be absent (\<^verbatim>\<open>undefined\<close>): each field is an option.
\<close>

record Document =
  d_id :: "string option"
  d_number :: "string option"
  d_type :: "DocType option"
  d_date :: "string option"
  d_time :: "string option"
  d_dueDate :: "string option"
  d_clientName :: "string option"
  d_clientRif :: "string option"
  d_clientAddress :: "string option"
  d_clientPhone :: "string option"
  d_description :: "string option"
  d_items :: "DocItem list option"
  d_subtotal :: "rat option"
  d_taxRate :: "rat option"
  d_taxAmount :: "rat option"
  d_total :: "rat option"
  d_status :: "DocStatus option"

section \<open>Totals computation (App.tsx, calculateTotals)\<close>

record Totals =
  t_subtotal :: rat
  t_taxAmount :: rat
  t_total :: rat

text \<open>
  \<^verbatim>\<open>items.reduce((acc, i) => acc + i.total, 0)\<close> is a left fold from 0 over the stored
  \<^verbatim>\<open>total\<close> field of each item.
\<close>

definition calculateTotals :: "DocItem list \<Rightarrow> rat \<Rightarrow> Totals" where
  "calculateTotals items rate =
     (let sub = foldl (\<lambda>acc i. acc + i_total i) 0 items;
          tax = sub * (rate / 100)
      in \<lparr>t_subtotal = sub, t_taxAmount = tax, t_total = sub + tax\<rparr>)"

subsection \<open>The editor's handlers that build and change a line item\<close>

text \<open>
  The "Agregar" button appends a fresh item (quantity 1, price 0, total 0); the quantity
  and price inputs replace the item at their index by a copy with the new value and the
  recomputed \<^verbatim>\<open>total\<close>.
\<close>

definition newItem :: "string \<Rightarrow> DocItem" where
  "newItem rowId =
     \<lparr>i_id = [], i_rowId = rowId, i_description = [], i_unit = ''und'',
      i_quantity = 1, i_price = 0, i_total = 0\<rparr>"

definition setQuantity :: "rat \<Rightarrow> DocItem \<Rightarrow> DocItem" where
  "setQuantity q it = it\<lparr>i_quantity := q, i_total := q * i_price it\<rparr>"

definition setPrice :: "rat \<Rightarrow> DocItem \<Rightarrow> DocItem" where
  "setPrice p it = it\<lparr>i_price := p, i_total := p * i_quantity it\<rparr>"

text \<open>
  Choosing a product of the inventory in the description input (line 585) links the item
  to it: the item takes the product's id, description, price and unit.
\<close>

definition linkProduct :: "Product \<Rightarrow> DocItem \<Rightarrow> DocItem" where
  "linkProduct p it =
     it\<lparr>i_id := p_id p, i_description := p_description p, i_price := p_price p,
        i_unit := p_unit p, i_total := p_price p * i_quantity it\<rparr>"

text \<open>
  Typing a description that is no product's (line 586) changes the description only.
  Registering a new product from the editor (lines 718 to 726) links to it every item with
  its description: the item takes the new product's id, price and unit.
\<close>

definition setDescription :: "string \<Rightarrow> DocItem \<Rightarrow> DocItem" where
  "setDescription val it = it\<lparr>i_description := val\<rparr>"

definition linkNewProduct :: "Product \<Rightarrow> DocItem \<Rightarrow> DocItem" where
  "linkNewProduct newProd it =
     it\<lparr>i_id := p_id newProd, i_price := p_price newProd, i_unit := p_unit newProd,
        i_total := i_quantity it * p_price newProd\<rparr>"

text \<open>The stored line total agrees with quantity times unit price.\<close>

definition lineTotalFresh :: "DocItem \<Rightarrow> bool" where
  "lineTotalFresh it = (i_total it = i_quantity it * i_price it)"

text \<open>
  The line items the editor can hold: these six handlers are all the places of the
  program that write an item, and a stored document holds the items the editor had.
\<close>

inductive editorItem :: "DocItem \<Rightarrow> bool" where
  added: "editorItem (newItem rowId)"
| quantity: "editorItem it \<Longrightarrow> editorItem (setQuantity q it)"
| price: "editorItem it \<Longrightarrow> editorItem (setPrice p it)"
| linked: "editorItem it \<Longrightarrow> editorItem (linkProduct product it)"
| described: "editorItem it \<Longrightarrow> editorItem (setDescription val it)"
| linkedNew: "editorItem it \<Longrightarrow> editorItem (linkNewProduct newProd it)"

section \<open>Local storage (services/storage.ts)\<close>

text \<open>
  \<^verbatim>\<open>localStorage\<close> holds one item per key of \<^verbatim>\<open>KEYS\<close>; an item that was never written is
  absent (\<^verbatim>\<open>getItem\<close> returns \<^verbatim>\<open>null\<close>). Every item is written with \<^verbatim>\<open>JSON.stringify\<close> and read
  back with \<^verbatim>\<open>JSON.parse\<close>, so the model stores the value itself. The settings item is kept
  as the JSON object it is (a finite map from field names to values), because
  \<^verbatim>\<open>getSettings\<close> merges it field by field with the defaults.
\<close>

datatype jsval = JNull | JBoolean bool | JNumber rat | JString string

type_synonym jsobject = "string \<Rightarrow> jsval option"

record localStorage =
  casticel_settings :: "jsobject option"
  casticel_documents :: "Document list option"
  casticel_inventory :: "Product list option"
  casticel_clients :: "Client list option"

definition DEFAULT_SETTINGS :: CompanySettings where
  "DEFAULT_SETTINGS =
     \<lparr>name = ''Casticel C.A.'',
      rif = ''J-31348693-0'',
      address = ''Av. 5 de Diciembre, al lado del Banco Industrial. Acarigua 3303, Portuguesa.'',
      phone = ''0416-6367466'',
      logoUrl = ''https://picsum.photos/100/100'',
      email = ''contacto@casticel.com'',
      terms = ''* Precios sujetos a cambio sin previo aviso.'' @ [CHR 0x0A]
                @ ''* Validez de la oferta: 5 d'' @ [CHR 0xED] @ ''as.'',
      paymentConditions = ''80% de anticipo, saldo contra valuaciones parciales.'',
      nextBudgetNumber = 1,
      nextDeliveryNumber = 1,
      defaultTaxRate = 16,
      currencySymbol = ''$'',
      logoPosition = left,
      primaryColor = ''#0369a1''\<rparr>"

text \<open>The own properties of a settings object, as the spread operator and JSON see them.\<close>

definition logoPositionName :: "LogoPosition \<Rightarrow> string" where
  "logoPositionName p = (case p of left \<Rightarrow> ''left'' | center \<Rightarrow> ''center'' | right \<Rightarrow> ''right'')"

definition settingsObject :: "CompanySettings \<Rightarrow> jsobject" where
  "settingsObject st = map_of
     [(''name'', JString (name st)),
      (''rif'', JString (rif st)),
      (''address'', JString (address st)),
      (''phone'', JString (phone st)),
      (''logoUrl'', JString (logoUrl st)),
      (''email'', JString (email st)),
      (''terms'', JString (terms st)),
      (''paymentConditions'', JString (paymentConditions st)),
      (''nextBudgetNumber'', JNumber (of_int (nextBudgetNumber st))),
      (''nextDeliveryNumber'', JNumber (of_int (nextDeliveryNumber st))),
      (''defaultTaxRate'', JNumber (defaultTaxRate st)),
      (''currencySymbol'', JString (currencySymbol st)),
      (''logoPosition'', JString (logoPositionName (logoPosition st))),
      (''primaryColor'', JString (primaryColor st))]"

text \<open>
  \<^verbatim>\<open>{ ...DEFAULT_SETTINGS, ...JSON.parse(saved) }\<close>: the fields of the second object
  override those of the first.
\<close>

definition getSettings :: "localStorage \<Rightarrow> jsobject" where
  "getSettings ls =
     (case casticel_settings ls of
        Some saved \<Rightarrow> settingsObject DEFAULT_SETTINGS ++ saved
      | None \<Rightarrow> settingsObject DEFAULT_SETTINGS)"

definition saveSettings :: "CompanySettings \<Rightarrow> localStorage \<Rightarrow> localStorage" where
  "saveSettings st ls = ls\<lparr>casticel_settings := Some (settingsObject st)\<rparr>"

text \<open>
  \<^verbatim>\<open>Array.prototype.findIndex\<close>: the index of the first element that satisfies the
  predicate, and -1 when there is none.
\<close>

fun findIndex :: "('a \<Rightarrow> bool) \<Rightarrow> 'a list \<Rightarrow> int" where
  "findIndex P [] = - 1"
| "findIndex P (x # xs) =
     (if P x then 0 else (let k = findIndex P xs in if k < 0 then - 1 else k + 1))"

definition getDocuments :: "localStorage \<Rightarrow> Document list" where
  "getDocuments ls = (case casticel_documents ls of Some saved \<Rightarrow> saved | None \<Rightarrow> [])"

definition saveDocument :: "Document \<Rightarrow> localStorage \<Rightarrow> localStorage" where
  "saveDocument doc ls =
     (let docs = getDocuments ls;
          existingIndex = findIndex (\<lambda>d. d_id d = d_id doc) docs
      in ls\<lparr>casticel_documents :=
            Some (if existingIndex \<ge> 0 then docs[nat existingIndex := doc] else docs @ [doc])\<rparr>)"

definition deleteDocument :: "string \<Rightarrow> localStorage \<Rightarrow> localStorage" where
  "deleteDocument ident ls =
     ls\<lparr>casticel_documents := Some (filter (\<lambda>d. d_id d \<noteq> Some ident) (getDocuments ls))\<rparr>"

definition getInventory :: "localStorage \<Rightarrow> Product list" where
  "getInventory ls = (case casticel_inventory ls of Some saved \<Rightarrow> saved | None \<Rightarrow> [])"

definition saveProduct :: "Product \<Rightarrow> localStorage \<Rightarrow> localStorage" where
  "saveProduct product ls =
     (let items = getInventory ls;
          index = findIndex (\<lambda>p. p_id p = p_id product) items
      in ls\<lparr>casticel_inventory :=
            Some (if index \<ge> 0 then items[nat index := product] else items @ [product])\<rparr>)"

definition deleteProduct :: "string \<Rightarrow> localStorage \<Rightarrow> localStorage" where
  "deleteProduct ident ls =
     ls\<lparr>casticel_inventory := Some (filter (\<lambda>p. p_id p \<noteq> ident) (getInventory ls))\<rparr>"

definition getClients :: "localStorage \<Rightarrow> Client list" where
  "getClients ls = (case casticel_clients ls of Some saved \<Rightarrow> saved | None \<Rightarrow> [])"

definition saveClient :: "Client \<Rightarrow> localStorage \<Rightarrow> localStorage" where
  "saveClient client ls =
     (let items = getClients ls;
          index = findIndex (\<lambda>c. c_id c = c_id client) items
      in ls\<lparr>casticel_clients :=
            Some (if index \<ge> 0 then items[nat index := client] else items @ [client])\<rparr>)"

definition deleteClient :: "string \<Rightarrow> localStorage \<Rightarrow> localStorage" where
  "deleteClient ident ls =
     ls\<lparr>casticel_clients := Some (filter (\<lambda>c. c_id c \<noteq> ident) (getClients ls))\<rparr>"

section \<open>The application state and the save handler (App.tsx)\<close>

text \<open>
  The component's state (\<^verbatim>\<open>useState\<close>) together with the browser's storage. A handler runs
  to completion on the state of the render it belongs to; the setter calls it makes are the
  state of the next render. The handler is therefore a function from state to state, and
  two user actions in sequence are the composition of two such functions.
\<close>

record AppState =
  settings :: CompanySettings
  documents :: "Document list"
  inventory :: "Product list"
  clients :: "Client list"
  currentDoc :: Document
  storage :: localStorage

text \<open>
  What the user sees of a run of the handler: the text of the \<^verbatim>\<open>alert\<close> it ends with, or an
  uncaught \<^verbatim>\<open>TypeError\<close> (reading \<^verbatim>\<open>forEach\<close> of an absent item list).
\<close>

datatype Outcome = Alerted string | TypeError

text \<open>\<^verbatim>\<open>!v\<close> for a value that is a string or \<^verbatim>\<open>undefined\<close>.\<close>

definition falsy :: "string option \<Rightarrow> bool" where
  "falsy v = (case v of None \<Rightarrow> True | Some str \<Rightarrow> str = [])"

text \<open>\<^verbatim>\<open>String(n)\<close> for an integer \<^verbatim>\<open>n\<close>: its decimal digits, after a minus sign when negative.\<close>

fun digits :: "nat \<Rightarrow> string" where
  "digits n =
     (if n < 10 then [''0123456789'' ! n]
      else digits (n div 10) @ [''0123456789'' ! (n mod 10)])"

declare digits.simps [simp del]

definition String_num :: "int \<Rightarrow> string" where
  "String_num n = (if n < 0 then CHR ''-'' # digits (nat (- n)) else digits (nat n))"

text \<open>
  \<^verbatim>\<open>str.padStart(targetLength, padString)\<close>: a string that is long enough is returned as it
  is; otherwise the pad string is repeated, and cut, to fill the missing length on the left.
\<close>

definition padStart :: "nat \<Rightarrow> string \<Rightarrow> string \<Rightarrow> string" where
  "padStart targetLength padString str =
     (if targetLength \<le> length str \<or> padString = [] then str
      else take (targetLength - length str)
             (concat (replicate (targetLength - length str) padString)) @ str)"

text \<open>
  Lines 188 to 203, "Generate number if new": the document number after the block, and the
  state after it (the settings written to storage and set as the next settings).
\<close>

definition generateNumber :: "AppState \<Rightarrow> string option \<times> AppState" where
  "generateNumber s =
     (if falsy (d_number (currentDoc s)) then
        (let isBudget = (d_type (currentDoc s) = Some presupuesto);
             prefix = (if isBudget then ''PRE-'' else ''NE-'');
             nextNum = (if isBudget then nextBudgetNumber (settings s)
                        else nextDeliveryNumber (settings s));
             docNumber = prefix @ padStart 6 ''0'' (String_num nextNum);
             newSettings = (if isBudget then (settings s)\<lparr>nextBudgetNumber := nextNum + 1\<rparr>
                            else (settings s)\<lparr>nextDeliveryNumber := nextNum + 1\<rparr>)
         in (Some docNumber,
             s\<lparr>storage := saveSettings newSettings (storage s), settings := newSettings\<rparr>))
      else (d_number (currentDoc s), s))"

text \<open>
  The body of \<^verbatim>\<open>finalDoc.items.forEach\<close> (lines 214 to 217). \<^verbatim>\<open>find\<close> returns the first
  product with the item's id, the object itself, so the assignment to its \<^verbatim>\<open>stock\<close> changes
  the element of \<^verbatim>\<open>newInv\<close> at that index. There is no test on the resulting stock.
\<close>

definition deduct :: "Product list \<Rightarrow> DocItem \<Rightarrow> Product list" where
  "deduct newInv item =
     (if i_id item \<noteq> [] then
        (let k = findIndex (\<lambda>p. p_id p = i_id item) newInv
         in if k \<ge> 0
            then newInv[nat k := (newInv ! nat k)\<lparr>p_stock := p_stock (newInv ! nat k) - i_quantity item\<rparr>]
            else newInv)
      else newInv)"

definition savedMessage :: string where
  "savedMessage = ''Documento guardado con '' @ [CHR 0xE9] @ ''xito''"

definition handleSaveDocument :: "AppState \<Rightarrow> Outcome \<times> AppState" where
  "handleSaveDocument s =
     (if falsy (d_clientName (currentDoc s)) then (Alerted ''El cliente es obligatorio'', s)
      else
        (let docNumber = fst (generateNumber s);
             s1 = snd (generateNumber s);
             finalDoc = (currentDoc s)\<lparr>d_number := docNumber, d_status := Some final\<rparr>;
             s2 = s1\<lparr>storage := saveDocument finalDoc (storage s1)\<rparr>;
             s3 = s2\<lparr>documents := getDocuments (storage s2), currentDoc := finalDoc\<rparr>
         in if d_type finalDoc = Some entrega \<and> falsy (d_number (currentDoc s)) then
              (case d_items finalDoc of
                 None \<Rightarrow> (TypeError, s3)
               | Some items \<Rightarrow>
                   (let newInv = foldl deduct (inventory s) items
                    in (Alerted savedMessage,
                        s3\<lparr>inventory := newInv,
                           storage := foldl (\<lambda>ls p. saveProduct p ls) (storage s3) newInv\<rparr>)))
            else (Alerted savedMessage, s3)))"

text \<open>
  Opening a document in the editor (\<^verbatim>\<open>setCurrentDoc(doc)\<close>, as "Nuevo Doc", "Editar" and
  "Copiar" do) and pressing "Guardar": the state of the next render.
\<close>

definition openAndSave :: "Document \<Rightarrow> AppState \<Rightarrow> AppState" where
  "openAndSave doc s = snd (handleSaveDocument (s\<lparr>currentDoc := doc\<rparr>))"

subsection \<open>The editor's handlers that prepare the draft\<close>

text \<open>
  \<^verbatim>\<open>handleCreateNew\<close> (the id, date and time it reads from the environment are
  parameters), the two type buttons, the client name input and the common tail of the
  item handlers, which stores the new item list together with the recomputed totals. Only
  their effect on the draft is modelled; the view they switch to is not part of the state.
\<close>

definition handleCreateNew :: "string \<Rightarrow> string \<Rightarrow> string \<Rightarrow> AppState \<Rightarrow> AppState" where
  "handleCreateNew uuid today_date today_time s =
     s\<lparr>currentDoc :=
         \<lparr>d_id = Some uuid, d_number = None, d_type = Some presupuesto,
          d_date = Some today_date, d_time = Some today_time, d_dueDate = None,
          d_clientName = Some [], d_clientRif = Some [], d_clientAddress = Some [],
          d_clientPhone = Some [], d_description = Some [], d_items = Some [],
          d_subtotal = Some 0, d_taxRate = Some (defaultTaxRate (settings s)),
          d_taxAmount = Some 0, d_total = Some 0, d_status = Some draft\<rparr>\<rparr>"

text \<open>The "Copiar" button of the history: a copy with a new id, an empty number and today's date.\<close>

definition copyDocument :: "string \<Rightarrow> string \<Rightarrow> Document \<Rightarrow> Document" where
  "copyDocument uuid today_date doc =
     doc\<lparr>d_id := Some uuid, d_number := Some [], d_date := Some today_date\<rparr>"

definition setType :: "DocType \<Rightarrow> AppState \<Rightarrow> AppState" where
  "setType t s = s\<lparr>currentDoc := (currentDoc s)\<lparr>d_type := Some t\<rparr>\<rparr>"

definition setClientName :: "string \<Rightarrow> AppState \<Rightarrow> AppState" where
  "setClientName val s =
     (case find (\<lambda>c. c_name c = val) (clients s) of
        Some match \<Rightarrow>
          s\<lparr>currentDoc := (currentDoc s)\<lparr>d_clientName := Some (c_name match),
               d_clientRif := Some (c_rif match), d_clientAddress := Some (c_address match),
               d_clientPhone := Some (c_phone match)\<rparr>\<rparr>
      | None \<Rightarrow> s\<lparr>currentDoc := (currentDoc s)\<lparr>d_clientName := Some val\<rparr>\<rparr>)"

definition setItems :: "DocItem list \<Rightarrow> AppState \<Rightarrow> AppState" where
  "setItems ni s =
     (let totals = calculateTotals ni (case d_taxRate (currentDoc s) of Some r \<Rightarrow> r | None \<Rightarrow> 0)
      in s\<lparr>currentDoc := (currentDoc s)\<lparr>d_items := Some ni,
             d_subtotal := Some (t_subtotal totals), d_taxAmount := Some (t_taxAmount totals),
             d_total := Some (t_total totals)\<rparr>\<rparr>)"

section \<open>Auxiliary functions of the proofs\<close>

text \<open>
  Recursive readings of the two index-based idioms of the code: change the first element
  that satisfies a predicate, and replace the first such element or append.
\<close>

fun mapFirst :: "('a \<Rightarrow> bool) \<Rightarrow> ('a \<Rightarrow> 'a) \<Rightarrow> 'a list \<Rightarrow> 'a list" where
  "mapFirst P f [] = []"
| "mapFirst P f (x # xs) = (if P x then f x # xs else x # mapFirst P f xs)"

definition upsert :: "('a \<Rightarrow> bool) \<Rightarrow> 'a \<Rightarrow> 'a list \<Rightarrow> 'a list" where
  "upsert P x xs = (if findIndex P xs \<ge> 0 then xs[nat (findIndex P xs) := x] else xs @ [x])"

text \<open>The total quantity of the line items that are linked to the product with a given id.\<close>

definition linkedQuantity :: "string \<Rightarrow> DocItem list \<Rightarrow> rat" where
  "linkedQuantity ident items =
     sum_list (map i_quantity (filter (\<lambda>i. i_id i \<noteq> [] \<and> i_id i = ident) items))"

section \<open>Sample data\<close>

text \<open>
  A small shop: two products in stock, two clients, and the drafts a user reaches by
  pressing "Nuevo Doc", typing a client name, choosing the type and adding items. The
  delivery draft has a line for each product, a free-text line, and a line linked to a
  product that is no longer in the inventory.
\<close>

definition cableProduct :: Product where
  "cableProduct =
     \<lparr>p_id = ''p1'', p_code = ''PRD-001'', p_description = ''Cable'', p_price = 10,
      p_stock = 10, p_unit = ''m''\<rparr>"

definition tubeProduct :: Product where
  "tubeProduct =
     \<lparr>p_id = ''p2'', p_code = ''PRD-002'', p_description = ''Tubo'', p_price = 4,
      p_stock = 1, p_unit = ''und''\<rparr>"

definition goneProduct :: Product where
  "goneProduct =
     \<lparr>p_id = ''p9'', p_code = ''PRD-009'', p_description = ''Filtro'', p_price = 6,
      p_stock = 0, p_unit = ''und''\<rparr>"

definition clientAna :: Client where
  "clientAna = \<lparr>c_id = ''c1'', c_name = ''Ana'', c_rif = ''V-1'', c_address = ''Acarigua'',
      c_phone = ''0414''\<rparr>"

definition clientLuis :: Client where
  "clientLuis = \<lparr>c_id = ''c2'', c_name = ''Luis'', c_rif = ''V-2'', c_address = ''Araure'',
      c_phone = ''0416''\<rparr>"

definition freshState :: AppState where
  "freshState =
     \<lparr>settings = DEFAULT_SETTINGS, documents = [], inventory = [cableProduct, tubeProduct],
      clients = [clientAna, clientLuis],
      currentDoc = \<lparr>d_id = None, d_number = None, d_type = None, d_date = None, d_time = None,
         d_dueDate = None, d_clientName = None, d_clientRif = None, d_clientAddress = None,
         d_clientPhone = None, d_description = None, d_items = Some [], d_subtotal = Some 0,
         d_taxRate = Some 16, d_taxAmount = Some 0, d_total = Some 0, d_status = None\<rparr>,
      storage = \<lparr>casticel_settings = None, casticel_documents = None,
         casticel_inventory = Some [cableProduct, tubeProduct],
         casticel_clients = Some [clientAna, clientLuis]\<rparr>\<rparr>"

definition cableItem :: DocItem where
  "cableItem = setQuantity 3 (linkProduct cableProduct (newItem ''r1''))"

definition tubeItem :: DocItem where
  "tubeItem = setQuantity 2 (linkProduct tubeProduct (newItem ''r2''))"

definition customItem :: DocItem where
  "customItem = setPrice 7 (setQuantity 5 ((newItem ''r3'')\<lparr>i_description := ''Mano de obra''\<rparr>))"

definition goneItem :: DocItem where
  "goneItem = setQuantity 4 (linkProduct goneProduct (newItem ''r4''))"

definition blankDraft :: AppState where
  "blankDraft = handleCreateNew ''d1'' ''1/1/2025'' ''10:00:00'' freshState"

definition quoteDraft :: AppState where
  "quoteDraft = setItems [cableItem, customItem] (setClientName ''Ana'' blankDraft)"

definition deliveryDraft :: AppState where
  "deliveryDraft =
     setItems [cableItem, tubeItem, customItem, goneItem]
       (setType entrega (setClientName ''Luis''
          (handleCreateNew ''d2'' ''2/1/2025'' ''11:30:00'' freshState)))"

definition quoteCopy :: Document where
  "quoteCopy =
     copyDocument ''d3'' ''3/1/2025'' (currentDoc (openAndSave (currentDoc quoteDraft) freshState))"

definition deliveryCopy :: Document where
  "deliveryCopy =
     copyDocument ''d4'' ''3/1/2025'' (currentDoc (openAndSave (currentDoc deliveryDraft) freshState))"

definition sampleArchive :: localStorage where
  "sampleArchive =
     (storage freshState)\<lparr>casticel_documents :=
        Some [currentDoc quoteDraft, currentDoc deliveryDraft]\<rparr>"

section \<open>Lists: the first match, replace or append\<close>

lemma findIndex_ge: "- 1 \<le> findIndex P xs"
  by (induction xs) (simp_all add: Let_def)

lemma findIndex_neg_iff: "findIndex P xs < 0 \<longleftrightarrow> (\<forall>x \<in> set xs. \<not> P x)"
proof (induction xs)
  case Nil
  show ?case by simp
next
  case (Cons x xs)
  have "- 1 \<le> findIndex P xs" by (rule findIndex_ge)
  with Cons show ?case by (auto simp: Let_def)
qed

lemma update_findIndex:
  "0 \<le> findIndex P xs \<Longrightarrow>
     xs[nat (findIndex P xs) := f (xs ! nat (findIndex P xs))] = mapFirst P f xs"
proof (induction xs)
  case Nil
  then show ?case by simp
next
  case (Cons x xs)
  show ?case
  proof (cases "P x")
    case True
    then show ?thesis by simp
  next
    case False
    with Cons.prems have nn: "0 \<le> findIndex P xs"
      by (simp add: Let_def split: if_splits)
    then have eq: "findIndex P (x # xs) = findIndex P xs + 1"
      using False by (simp add: Let_def)
    have n: "nat (findIndex P xs + 1) = Suc (nat (findIndex P xs))"
      using nn by simp
    show ?thesis
      unfolding eq n using False Cons.IH [OF nn] by simp
  qed
qed

lemma mapFirst_none: "\<forall>x \<in> set xs. \<not> P x \<Longrightarrow> mapFirst P f xs = xs"
  by (induction xs) simp_all

lemma mapFirst_at:
  "list_all (\<lambda>x. \<not> P x) before \<Longrightarrow> P x \<Longrightarrow>
     mapFirst P f (before @ x # after) = before @ f x # after"
  by (induction before) simp_all

lemma mapFirst_distinct:
  "distinct (map key xs) \<Longrightarrow>
     mapFirst (\<lambda>x. key x = a) f xs = map (\<lambda>x. if key x = a then f x else x) xs"
proof (induction xs)
  case Nil
  show ?case by simp
next
  case (Cons x xs)
  show ?case
  proof (cases "key x = a")
    case True
    with Cons.prems have "\<forall>y \<in> set xs. key y \<noteq> a" by (auto simp: image_iff)
    then have "map (\<lambda>x. if key x = a then f x else x) xs = xs"
      by (induction xs) simp_all
    with True show ?thesis by simp
  next
    case False
    with Cons show ?thesis by simp
  qed
qed

lemma upsert_Nil: "upsert P x [] = [x]"
  by (simp add: upsert_def)

lemma upsert_Cons: "upsert P x (y # ys) = (if P y then x # ys else y # upsert P x ys)"
proof (cases "P y")
  case True
  then show ?thesis by (simp add: upsert_def)
next
  case False
  show ?thesis
  proof (cases "0 \<le> findIndex P ys")
    case True
    then have "nat (findIndex P ys + 1) = Suc (nat (findIndex P ys))" by simp
    with True False show ?thesis by (simp add: upsert_def Let_def)
  next
    case no: False
    with False show ?thesis by (simp add: upsert_def Let_def)
  qed
qed

lemma upsert_idem: "P x \<Longrightarrow> upsert P x (upsert P x xs) = upsert P x xs"
  by (induction xs) (simp_all add: upsert_Nil upsert_Cons)

lemma upsert_mem: "x \<in> set (upsert P x xs)"
  by (induction xs) (simp_all add: upsert_Nil upsert_Cons)

lemma find_upsert:
  "find (\<lambda>y. key y = a) (upsert (\<lambda>y. key y = key x) x xs)
     = (if key x = a then Some x else find (\<lambda>y. key y = a) xs)"
  by (induction xs) (auto simp: upsert_Nil upsert_Cons)

lemma keys_upsert:
  "set (map key (upsert (\<lambda>y. key y = key x) x xs)) = insert (key x) (set (map key xs))"
  by (induction xs) (auto simp: upsert_Nil upsert_Cons)

lemma distinct_upsert:
  "distinct (map key xs) \<Longrightarrow> distinct (map key (upsert (\<lambda>y. key y = key x) x xs))"
proof (induction xs)
  case Nil
  show ?case by (simp add: upsert_Nil)
next
  case (Cons y ys)
  show ?case
  proof (cases "key y = key x")
    case True
    with Cons.prems show ?thesis by (simp add: upsert_Cons)
  next
    case False
    have "key y \<notin> set (map key (upsert (\<lambda>y. key y = key x) x ys))"
      using Cons.prems False by (simp only: keys_upsert) simp
    with Cons False show ?thesis by (simp add: upsert_Cons)
  qed
qed

lemma mapFirst_keys: "(\<And>x. key (f x) = key x) \<Longrightarrow> map key (mapFirst P f xs) = map key xs"
  by (induction xs) simp_all

lemma filter_one_out:
  "list_all (\<lambda>x. \<not> P x) (xs @ ys) \<Longrightarrow> P e \<Longrightarrow> filter (\<lambda>x. \<not> P x) (xs @ e # ys) = xs @ ys"
  by (simp add: list_all_iff filter_id_conv)

lemma filter_none_out:
  "list_all (\<lambda>x. \<not> P x) xs \<Longrightarrow> filter (\<lambda>x. \<not> P x) xs = xs"
  by (simp add: list_all_iff filter_id_conv)

section \<open>The totals computation\<close>

lemma foldl_total_acc:
  "foldl (\<lambda>acc i. acc + i_total i) a items = a + sum_list (map i_total items)"
  by (induction items arbitrary: a) (simp_all add: add.assoc)

lemma subtotal_sum_total:
  "t_subtotal (calculateTotals items rate) = sum_list (map i_total items)"
  by (simp add: calculateTotals_def Let_def foldl_total_acc)

lemma newItem_fresh: "lineTotalFresh (newItem r)"
  by (simp add: lineTotalFresh_def newItem_def)

lemma setQuantity_fresh: "lineTotalFresh (setQuantity q it)"
  by (simp add: lineTotalFresh_def setQuantity_def)

lemma setPrice_fresh: "lineTotalFresh (setPrice p it)"
  by (simp add: lineTotalFresh_def setPrice_def mult.commute)

lemma linkProduct_fresh: "lineTotalFresh (linkProduct p it)"
  by (simp add: lineTotalFresh_def linkProduct_def mult.commute)

lemma fresh_sum_list:
  "list_all lineTotalFresh items \<Longrightarrow>
     sum_list (map i_total items) = sum_list (map (\<lambda>i. i_quantity i * i_price i) items)"
  by (induction items) (simp_all add: lineTotalFresh_def)

lemma setDescription_fresh: "lineTotalFresh it \<Longrightarrow> lineTotalFresh (setDescription val it)"
  by (simp add: lineTotalFresh_def setDescription_def)

lemma linkNewProduct_fresh: "lineTotalFresh (linkNewProduct newProd it)"
  by (simp add: lineTotalFresh_def linkNewProduct_def)

lemma editorItem_fresh: "editorItem it \<Longrightarrow> lineTotalFresh it"
  by (induction rule: editorItem.induct)
     (simp_all add: newItem_fresh setQuantity_fresh setPrice_fresh linkProduct_fresh
        setDescription_fresh linkNewProduct_fresh)

lemma editorItems_fresh: "list_all editorItem items \<Longrightarrow> list_all lineTotalFresh items"
  by (induction items) (simp_all add: editorItem_fresh)

text \<open>
  C1. For every list of line items, empty or not, and every tax rate, the subtotal produced
  by \<^verbatim>\<open>calculateTotals\<close> equals the sum over the items of quantity \<times> unit price. The line
  items are those of the data model, whose stored line total is quantity \<times> unit price;
  every item the editor can build is one of them, so the equation holds for every list of
  items the program can pass to \<^verbatim>\<open>calculateTotals\<close>.
\<close>

theorem calculateTotals_subtotal:
  "(list_all lineTotalFresh items \<longrightarrow>
      t_subtotal (calculateTotals items rate)
        = sum_list (map (\<lambda>i. i_quantity i * i_price i) items)) \<and>
   (list_all editorItem items \<longrightarrow>
      t_subtotal (calculateTotals items rate)
        = sum_list (map (\<lambda>i. i_quantity i * i_price i) items))"
  using fresh_sum_list [of items] editorItems_fresh [of items]
  by (simp add: subtotal_sum_total)

theorem calculateTotals_subtotal_witness:
  "list_all lineTotalFresh [setPrice 10 (setQuantity 2 (newItem ''r1'')), setPrice 5 (newItem ''r2'')] \<and>
   list_all editorItem [setPrice 10 (setQuantity 2 (newItem ''r1'')), setPrice 5 (newItem ''r2'')] \<and>
   sum_list (map (\<lambda>i. i_quantity i * i_price i)
       [setPrice 10 (setQuantity 2 (newItem ''r1'')), setPrice 5 (newItem ''r2'')]) = 25 \<and>
   t_subtotal (calculateTotals
       [setPrice 10 (setQuantity 2 (newItem ''r1'')), setPrice 5 (newItem ''r2'')] 16) = 25"
proof -
  have built: "list_all editorItem
      [setPrice 10 (setQuantity 2 (newItem ''r1'')), setPrice 5 (newItem ''r2'')]"
    by (simp add: editorItem.intros)
  have fresh: "list_all lineTotalFresh
      [setPrice 10 (setQuantity 2 (newItem ''r1'')), setPrice 5 (newItem ''r2'')]"
    by (simp add: setPrice_fresh)
  have total: "sum_list (map (\<lambda>i. i_quantity i * i_price i)
       [setPrice 10 (setQuantity 2 (newItem ''r1'')), setPrice 5 (newItem ''r2'')]) = 25"
    by (simp add: setPrice_def setQuantity_def newItem_def)
  show ?thesis
    using calculateTotals_subtotal
      [of "[setPrice 10 (setQuantity 2 (newItem ''r1'')), setPrice 5 (newItem ''r2'')]" 16]
      built fresh total
    by simp
qed

text \<open>
  C2. For every list of line items and every rate, \<^verbatim>\<open>calculateTotals\<close> returns
  taxAmount = subtotal \<times> rate / 100 and total = subtotal + taxAmount; for the items
  (quantity 2, price 10) and (quantity 1, price 5), entered through the editor, with rate 16
  it returns subtotal 25, taxAmount 4 and total 29.
\<close>

theorem calculateTotals_tax_total:
  "t_taxAmount (calculateTotals items rate) = t_subtotal (calculateTotals items rate) * rate / 100 \<and>
   t_total (calculateTotals items rate)
     = t_subtotal (calculateTotals items rate) + t_taxAmount (calculateTotals items rate) \<and>
   calculateTotals [setPrice 10 (setQuantity 2 (newItem ''r1'')), setPrice 5 (newItem ''r2'')] 16
     = \<lparr>t_subtotal = 25, t_taxAmount = 4, t_total = 29\<rparr>"
  by (simp add: calculateTotals_def Let_def setPrice_def setQuantity_def newItem_def)

section \<open>Storage: reads after writes\<close>

lemma saveDocument_upsert:
  "saveDocument doc ls =
     ls\<lparr>casticel_documents := Some (upsert (\<lambda>d. d_id d = d_id doc) doc (getDocuments ls))\<rparr>"
  by (simp add: saveDocument_def upsert_def Let_def)

lemma saveProduct_upsert:
  "saveProduct product ls =
     ls\<lparr>casticel_inventory := Some (upsert (\<lambda>p. p_id p = p_id product) product (getInventory ls))\<rparr>"
  by (simp add: saveProduct_def upsert_def Let_def)

lemma getInventory_saveProduct:
  "getInventory (saveProduct product ls)
     = upsert (\<lambda>p. p_id p = p_id product) product (getInventory ls)"
  by (simp add: saveProduct_upsert getInventory_def)

lemma saveProducts_frame:
  "casticel_documents (foldl (\<lambda>ls p. saveProduct p ls) ls ps) = casticel_documents ls \<and>
   casticel_settings (foldl (\<lambda>ls p. saveProduct p ls) ls ps) = casticel_settings ls \<and>
   casticel_clients (foldl (\<lambda>ls p. saveProduct p ls) ls ps) = casticel_clients ls"
  by (induction ps arbitrary: ls) (simp_all add: saveProduct_upsert)

lemma saveProducts_find:
  "distinct (map p_id ps) \<Longrightarrow> p \<in> set ps \<Longrightarrow>
     find (\<lambda>q. p_id q = p_id p) (getInventory (foldl (\<lambda>ls p. saveProduct p ls) ls ps)) = Some p"
proof (induction ps rule: rev_induct)
  case Nil
  then show ?case by simp
next
  case (snoc x xs)
  show ?case
  proof (cases "p = x")
    case True
    then show ?thesis
      by (simp add: getInventory_saveProduct find_upsert [where key = p_id])
  next
    case False
    with snoc.prems have mem: "p \<in> set xs" by simp
    with snoc.prems have "p_id x \<noteq> p_id p" by auto
    moreover have "find (\<lambda>q. p_id q = p_id p)
        (getInventory (foldl (\<lambda>ls p. saveProduct p ls) ls xs)) = Some p"
      using snoc.prems mem by (intro snoc.IH) simp_all
    ultimately show ?thesis
      by (simp add: getInventory_saveProduct find_upsert [where key = p_id])
  qed
qed

lemma getDocuments_deleteDocument:
  "getDocuments (deleteDocument ident ls) = filter (\<lambda>d. d_id d \<noteq> Some ident) (getDocuments ls)"
  by (simp add: deleteDocument_def getDocuments_def)

lemma getInventory_deleteProduct:
  "getInventory (deleteProduct ident ls) = filter (\<lambda>p. p_id p \<noteq> ident) (getInventory ls)"
  by (simp add: deleteProduct_def getInventory_def)

lemma getClients_deleteClient:
  "getClients (deleteClient ident ls) = filter (\<lambda>c. c_id c \<noteq> ident) (getClients ls)"
  by (simp add: deleteClient_def getClients_def)

text \<open>Saving and deleting by id keep the product ids of the stored inventory distinct.\<close>

lemma saveProduct_distinct:
  "distinct (map p_id (getInventory ls)) \<Longrightarrow>
     distinct (map p_id (getInventory (saveProduct product ls)))"
  by (simp add: getInventory_saveProduct distinct_upsert)

lemma deleteProduct_distinct:
  "distinct (map p_id (getInventory ls)) \<Longrightarrow>
     distinct (map p_id (getInventory (deleteProduct ident ls)))"
  by (simp add: getInventory_deleteProduct distinct_map_filter)

lemmas sample_defs = quoteDraft_def deliveryDraft_def blankDraft_def freshState_def
  handleCreateNew_def setType_def setClientName_def setItems_def
  cableItem_def tubeItem_def customItem_def goneItem_def
  cableProduct_def tubeProduct_def goneProduct_def clientAna_def clientLuis_def
  linkProduct_def setQuantity_def setPrice_def newItem_def calculateTotals_def

section \<open>Properties of storage\<close>

text \<open>
  C7 (as stated, refuted). Deleting a product id that no stored product has removes no
  entry: the two stored products are both still there.
\<close>

theorem deleteProduct_absent_id:
  "getInventory (storage freshState) = [cableProduct, tubeProduct] \<and>
   getInventory (deleteProduct ''p9'' (storage freshState)) = [cableProduct, tubeProduct]"
  by (simp add: getInventory_deleteProduct) (simp add: getInventory_def sample_defs)

text \<open>
  C7 (amended). For each collection (documents, products, clients) and every id, the
  delete operation removes every entry whose id equals the given id and leaves all other
  entries unchanged and in their order, and it touches no other collection: exactly one
  entry is removed when exactly one entry has that id, and none when no entry has it.
\<close>

theorem delete_keeps_others:
  "getDocuments (deleteDocument ident ls) = filter (\<lambda>d. d_id d \<noteq> Some ident) (getDocuments ls) \<and>
   getInventory (deleteProduct ident ls) = filter (\<lambda>p. p_id p \<noteq> ident) (getInventory ls) \<and>
   getClients (deleteClient ident ls) = filter (\<lambda>c. c_id c \<noteq> ident) (getClients ls) \<and>
   (getDocuments ls = docsA @ d # docsB \<and> d_id d = Some ident \<and>
    list_all (\<lambda>x. d_id x \<noteq> Some ident) (docsA @ docsB) \<longrightarrow>
      getDocuments (deleteDocument ident ls) = docsA @ docsB) \<and>
   (getInventory ls = prodsA @ p # prodsB \<and> p_id p = ident \<and>
    list_all (\<lambda>x. p_id x \<noteq> ident) (prodsA @ prodsB) \<longrightarrow>
      getInventory (deleteProduct ident ls) = prodsA @ prodsB) \<and>
   (getClients ls = clisA @ c # clisB \<and> c_id c = ident \<and>
    list_all (\<lambda>x. c_id x \<noteq> ident) (clisA @ clisB) \<longrightarrow>
      getClients (deleteClient ident ls) = clisA @ clisB) \<and>
   (list_all (\<lambda>x. d_id x \<noteq> Some ident) (getDocuments ls) \<longrightarrow>
      getDocuments (deleteDocument ident ls) = getDocuments ls) \<and>
   (list_all (\<lambda>x. p_id x \<noteq> ident) (getInventory ls) \<longrightarrow>
      getInventory (deleteProduct ident ls) = getInventory ls) \<and>
   (list_all (\<lambda>x. c_id x \<noteq> ident) (getClients ls) \<longrightarrow>
      getClients (deleteClient ident ls) = getClients ls) \<and>
   casticel_settings (deleteDocument ident ls) = casticel_settings ls \<and>
   casticel_inventory (deleteDocument ident ls) = casticel_inventory ls \<and>
   casticel_clients (deleteDocument ident ls) = casticel_clients ls \<and>
   casticel_settings (deleteProduct ident ls) = casticel_settings ls \<and>
   casticel_documents (deleteProduct ident ls) = casticel_documents ls \<and>
   casticel_clients (deleteProduct ident ls) = casticel_clients ls \<and>
   casticel_settings (deleteClient ident ls) = casticel_settings ls \<and>
   casticel_documents (deleteClient ident ls) = casticel_documents ls \<and>
   casticel_inventory (deleteClient ident ls) = casticel_inventory ls"
proof -
  have docs: "getDocuments ls = docsA @ d # docsB \<and> d_id d = Some ident \<and>
      list_all (\<lambda>x. d_id x \<noteq> Some ident) (docsA @ docsB) \<longrightarrow>
        getDocuments (deleteDocument ident ls) = docsA @ docsB"
    using filter_one_out [of "\<lambda>x. d_id x = Some ident" docsA docsB d]
    by (simp add: getDocuments_deleteDocument)
  have prods: "getInventory ls = prodsA @ p # prodsB \<and> p_id p = ident \<and>
      list_all (\<lambda>x. p_id x \<noteq> ident) (prodsA @ prodsB) \<longrightarrow>
        getInventory (deleteProduct ident ls) = prodsA @ prodsB"
    using filter_one_out [of "\<lambda>x. p_id x = ident" prodsA prodsB p]
    by (simp add: getInventory_deleteProduct)
  have clis: "getClients ls = clisA @ c # clisB \<and> c_id c = ident \<and>
      list_all (\<lambda>x. c_id x \<noteq> ident) (clisA @ clisB) \<longrightarrow>
        getClients (deleteClient ident ls) = clisA @ clisB"
    using filter_one_out [of "\<lambda>x. c_id x = ident" clisA clisB c]
    by (simp add: getClients_deleteClient)
  have none: "list_all (\<lambda>x. d_id x \<noteq> Some ident) (getDocuments ls) \<longrightarrow>
        getDocuments (deleteDocument ident ls) = getDocuments ls"
      "list_all (\<lambda>x. p_id x \<noteq> ident) (getInventory ls) \<longrightarrow>
        getInventory (deleteProduct ident ls) = getInventory ls"
      "list_all (\<lambda>x. c_id x \<noteq> ident) (getClients ls) \<longrightarrow>
        getClients (deleteClient ident ls) = getClients ls"
    using filter_none_out [of "\<lambda>x. d_id x = Some ident" "getDocuments ls"]
      filter_none_out [of "\<lambda>x. p_id x = ident" "getInventory ls"]
      filter_none_out [of "\<lambda>x. c_id x = ident" "getClients ls"]
    by (simp_all add: getDocuments_deleteDocument getInventory_deleteProduct
          getClients_deleteClient)
  have frame: "casticel_settings (deleteDocument ident ls) = casticel_settings ls"
      "casticel_inventory (deleteDocument ident ls) = casticel_inventory ls"
      "casticel_clients (deleteDocument ident ls) = casticel_clients ls"
      "casticel_settings (deleteProduct ident ls) = casticel_settings ls"
      "casticel_documents (deleteProduct ident ls) = casticel_documents ls"
      "casticel_clients (deleteProduct ident ls) = casticel_clients ls"
      "casticel_settings (deleteClient ident ls) = casticel_settings ls"
      "casticel_documents (deleteClient ident ls) = casticel_documents ls"
      "casticel_inventory (deleteClient ident ls) = casticel_inventory ls"
    by (simp_all add: deleteDocument_def deleteProduct_def deleteClient_def)
  show ?thesis
    using docs prods clis none frame
    by (simp only: getDocuments_deleteDocument getInventory_deleteProduct
          getClients_deleteClient simp_thms)
qed

lemma sampleArchive_facts:
  "getDocuments sampleArchive = [currentDoc quoteDraft, currentDoc deliveryDraft]"
  "getInventory sampleArchive = [cableProduct, tubeProduct]"
  "getClients sampleArchive = [clientAna, clientLuis]"
  "d_id (currentDoc quoteDraft) = Some ''d1''" "d_id (currentDoc deliveryDraft) = Some ''d2''"
  "p_id cableProduct = ''p1''" "p_id tubeProduct = ''p2''"
  "c_id clientAna = ''c1''" "c_id clientLuis = ''c2''"
  by (simp_all add: sampleArchive_def getDocuments_def getInventory_def getClients_def
        freshState_def)
     (simp_all add: sample_defs Let_def)

theorem delete_keeps_others_witness:
  "getDocuments sampleArchive = [] @ currentDoc quoteDraft # [currentDoc deliveryDraft] \<and>
   d_id (currentDoc quoteDraft) = Some ''d1'' \<and>
   list_all (\<lambda>x. d_id x \<noteq> Some ''d1'') ([] @ [currentDoc deliveryDraft]) \<and>
   getDocuments (deleteDocument ''d1'' sampleArchive) = [currentDoc deliveryDraft] \<and>
   getInventory sampleArchive = [cableProduct] @ tubeProduct # [] \<and> p_id tubeProduct = ''p2'' \<and>
   list_all (\<lambda>x. p_id x \<noteq> ''p2'') ([cableProduct] @ []) \<and>
   getInventory (deleteProduct ''p2'' sampleArchive) = [cableProduct] \<and>
   getClients sampleArchive = [] @ clientAna # [clientLuis] \<and> c_id clientAna = ''c1'' \<and>
   list_all (\<lambda>x. c_id x \<noteq> ''c1'') ([] @ [clientLuis]) \<and>
   getClients (deleteClient ''c1'' sampleArchive) = [clientLuis] \<and>
   list_all (\<lambda>x. d_id x \<noteq> Some ''zz'') (getDocuments sampleArchive) \<and>
   getDocuments (deleteDocument ''zz'' sampleArchive) = getDocuments sampleArchive \<and>
   list_all (\<lambda>x. p_id x \<noteq> ''zz'') (getInventory sampleArchive) \<and>
   getInventory (deleteProduct ''zz'' sampleArchive) = getInventory sampleArchive \<and>
   list_all (\<lambda>x. c_id x \<noteq> ''zz'') (getClients sampleArchive) \<and>
   getClients (deleteClient ''zz'' sampleArchive) = getClients sampleArchive"
  using delete_keeps_others [where ident = "''d1''" and ls = sampleArchive and docsA = "[]"
      and d = "currentDoc quoteDraft" and docsB = "[currentDoc deliveryDraft]"]
    delete_keeps_others [where ident = "''p2''" and ls = sampleArchive and prodsA = "[cableProduct]"
      and p = tubeProduct and prodsB = "[]"]
    delete_keeps_others [where ident = "''c1''" and ls = sampleArchive and clisA = "[]"
      and c = clientAna and clisB = "[clientLuis]"]
    delete_keeps_others [where ident = "''zz''" and ls = sampleArchive]
  by (simp add: sampleArchive_facts)

text \<open>
  C9. With no settings item in storage, \<^verbatim>\<open>getSettings\<close> returns the default configuration, in
  which nextBudgetNumber = 1, nextDeliveryNumber = 1 and defaultTaxRate = 16. With a stored
  object, every field of the result is the stored object's field where it has one, and
  the default configuration's field where it has none.
\<close>

theorem getSettings_defaults:
  "getSettings (ls\<lparr>casticel_settings := None\<rparr>) = settingsObject DEFAULT_SETTINGS \<and>
   nextBudgetNumber DEFAULT_SETTINGS = 1 \<and> nextDeliveryNumber DEFAULT_SETTINGS = 1 \<and>
   defaultTaxRate DEFAULT_SETTINGS = 16 \<and>
   settingsObject DEFAULT_SETTINGS ''nextBudgetNumber'' = Some (JNumber 1) \<and>
   settingsObject DEFAULT_SETTINGS ''nextDeliveryNumber'' = Some (JNumber 1) \<and>
   settingsObject DEFAULT_SETTINGS ''defaultTaxRate'' = Some (JNumber 16) \<and>
   getSettings (ls\<lparr>casticel_settings := Some saved\<rparr>) field
     = (case saved field of Some v \<Rightarrow> Some v | None \<Rightarrow> settingsObject DEFAULT_SETTINGS field)"
proof (intro conjI)
  show "getSettings (ls\<lparr>casticel_settings := None\<rparr>) = settingsObject DEFAULT_SETTINGS"
    by (simp add: getSettings_def)
  show "nextBudgetNumber DEFAULT_SETTINGS = 1" "nextDeliveryNumber DEFAULT_SETTINGS = 1"
    "defaultTaxRate DEFAULT_SETTINGS = 16"
    by (simp_all add: DEFAULT_SETTINGS_def)
  show "settingsObject DEFAULT_SETTINGS ''nextBudgetNumber'' = Some (JNumber 1)"
    "settingsObject DEFAULT_SETTINGS ''nextDeliveryNumber'' = Some (JNumber 1)"
    "settingsObject DEFAULT_SETTINGS ''defaultTaxRate'' = Some (JNumber 16)"
    by (simp_all add: settingsObject_def DEFAULT_SETTINGS_def)
  show "getSettings (ls\<lparr>casticel_settings := Some saved\<rparr>) field
     = (case saved field of Some v \<Rightarrow> Some v | None \<Rightarrow> settingsObject DEFAULT_SETTINGS field)"
    by (simp add: getSettings_def map_add_def split: option.split)
qed

section \<open>The save handler, step by step\<close>

lemma falsy_Some_Cons: "\<not> falsy (Some (c # cs))"
  by (simp add: falsy_def)

lemma generateNumber_numbered:
  "\<not> falsy (d_number (currentDoc s)) \<Longrightarrow> generateNumber s = (d_number (currentDoc s), s)"
  by (simp add: generateNumber_def)

lemma generateNumber_truthy: "\<not> falsy (fst (generateNumber s))"
  by (simp add: generateNumber_def Let_def falsy_Some_Cons)

lemma generateNumber_frame:
  "casticel_documents (storage (snd (generateNumber s))) = casticel_documents (storage s) \<and>
   casticel_inventory (storage (snd (generateNumber s))) = casticel_inventory (storage s) \<and>
   inventory (snd (generateNumber s)) = inventory s"
  by (simp add: generateNumber_def Let_def saveSettings_def)

lemma save_blocked:
  "falsy (d_clientName (currentDoc s)) \<Longrightarrow>
     handleSaveDocument s = (Alerted ''El cliente es obligatorio'', s)"
  by (simp add: handleSaveDocument_def)

lemma save_currentDoc:
  "\<not> falsy (d_clientName (currentDoc s)) \<Longrightarrow>
     currentDoc (snd (handleSaveDocument s))
       = (currentDoc s)\<lparr>d_number := fst (generateNumber s), d_status := Some final\<rparr>"
  by (simp add: handleSaveDocument_def Let_def split: option.split)

lemma save_storage_documents:
  "\<not> falsy (d_clientName (currentDoc s)) \<Longrightarrow>
     casticel_documents (storage (snd (handleSaveDocument s)))
       = Some (upsert (\<lambda>d. d_id d = d_id (currentDoc s))
                 ((currentDoc s)\<lparr>d_number := fst (generateNumber s), d_status := Some final\<rparr>)
                 (getDocuments (storage s)))"
  by (simp add: handleSaveDocument_def Let_def saveDocument_upsert saveProducts_frame
        getDocuments_def generateNumber_frame split: option.split)

lemma save_documents:
  "\<not> falsy (d_clientName (currentDoc s)) \<Longrightarrow>
     documents (snd (handleSaveDocument s)) = getDocuments (storage (snd (handleSaveDocument s)))"
  by (simp add: handleSaveDocument_def Let_def saveProducts_frame getDocuments_def
        split: option.split)

lemma save_settings:
  "\<not> falsy (d_clientName (currentDoc s)) \<Longrightarrow>
     settings (snd (handleSaveDocument s)) = settings (snd (generateNumber s)) \<and>
     casticel_settings (storage (snd (handleSaveDocument s)))
       = casticel_settings (storage (snd (generateNumber s)))"
  by (simp add: handleSaveDocument_def Let_def saveDocument_upsert saveProducts_frame
        split: option.split)

lemma save_numbered:
  "\<not> falsy (d_clientName (currentDoc s)) \<Longrightarrow> \<not> falsy (d_number (currentDoc s)) \<Longrightarrow>
     handleSaveDocument s =
       (Alerted savedMessage,
        s\<lparr>storage := saveDocument ((currentDoc s)\<lparr>d_status := Some final\<rparr>) (storage s),
          documents := getDocuments (saveDocument ((currentDoc s)\<lparr>d_status := Some final\<rparr>) (storage s)),
          currentDoc := (currentDoc s)\<lparr>d_status := Some final\<rparr>\<rparr>)"
  by (simp add: handleSaveDocument_def Let_def generateNumber_numbered)

lemma save_idem:
  "snd (handleSaveDocument (snd (handleSaveDocument s))) = snd (handleSaveDocument s)"
proof (cases "falsy (d_clientName (currentDoc s))")
  case True
  then show ?thesis by (simp add: save_blocked)
next
  case False
  define s' where "s' = snd (handleSaveDocument s)"
  define fd where "fd = (currentDoc s)\<lparr>d_number := fst (generateNumber s), d_status := Some final\<rparr>"
  have cur: "currentDoc s' = fd"
    unfolding s'_def fd_def using False by (rule save_currentDoc)
  have name: "\<not> falsy (d_clientName (currentDoc s'))"
    using False by (simp add: cur fd_def)
  have num: "\<not> falsy (d_number (currentDoc s'))"
    using generateNumber_truthy [of s] by (simp add: cur fd_def)
  have fin: "fd\<lparr>d_status := Some final\<rparr> = fd"
    by (simp add: fd_def)
  have docs: "casticel_documents (storage s')
                = Some (upsert (\<lambda>d. d_id d = d_id fd) fd (getDocuments (storage s)))"
    unfolding s'_def fd_def using save_storage_documents [OF False] by simp
  have st: "saveDocument fd (storage s') = storage s'"
    by (simp add: saveDocument_upsert getDocuments_def docs upsert_idem)
  have dd: "getDocuments (storage s') = documents s'"
    unfolding s'_def using False by (rule save_documents [symmetric])
  have "handleSaveDocument s' =
          (Alerted savedMessage, s'\<lparr>storage := storage s', documents := documents s',
             currentDoc := currentDoc s'\<rparr>)"
    using save_numbered [OF name num] by (simp only: cur fin st dd)
  then have "handleSaveDocument s' = (Alerted savedMessage, s')"
    by simp
  then show ?thesis by (simp add: s'_def)
qed

lemma save_keeps_number:
  "\<not> falsy (d_number (currentDoc s)) \<Longrightarrow>
     d_number (currentDoc (snd (handleSaveDocument s))) = d_number (currentDoc s) \<and>
     settings (snd (handleSaveDocument s)) = settings s \<and>
     casticel_settings (storage (snd (handleSaveDocument s))) = casticel_settings (storage s)"
proof (cases "falsy (d_clientName (currentDoc s))")
  case True
  then show ?thesis by (simp add: save_blocked)
next
  case False
  assume "\<not> falsy (d_number (currentDoc s))"
  with False show ?thesis by (simp add: save_numbered saveDocument_upsert)
qed

subsection \<open>The format of a number\<close>

lemma padStart_zero: "padStart n ''0'' str = replicate (n - length str) CHR ''0'' @ str"
proof -
  have "concat (replicate k ''0'') = replicate k CHR ''0''" for k
    by (induction k) simp_all
  then show ?thesis by (simp add: padStart_def)
qed

lemma length_digits_le: "n < 10 ^ Suc k \<Longrightarrow> length (digits n) \<le> Suc k"
proof (induction k arbitrary: n)
  case 0
  then show ?case by (subst digits.simps) simp
next
  case (Suc k)
  show ?case
  proof (cases "n < 10")
    case True
    then show ?thesis by (subst digits.simps) simp
  next
    case False
    from Suc.prems have "n div 10 < 10 ^ Suc k" by simp
    then have "length (digits (n div 10)) \<le> Suc k" by (rule Suc.IH)
    with False show ?thesis by (subst digits.simps) simp
  qed
qed

lemma number_width:
  assumes "0 \<le> n" and "n < 1000000"
  shows "length (padStart 6 ''0'' (String_num n)) = 6"
proof -
  have "nat n < 10 ^ Suc 5" using assms by simp
  then have "length (digits (nat n)) \<le> Suc 5" by (rule length_digits_le)
  with assms show ?thesis by (simp add: padStart_zero String_num_def)
qed

subsection \<open>A first save\<close>

lemma save_new_number:
  assumes "falsy (d_number (currentDoc s))" and "\<not> falsy (d_clientName (currentDoc s))"
  shows
    "(d_type (currentDoc s) = Some presupuesto \<longrightarrow>
        d_number (currentDoc (snd (handleSaveDocument s)))
          = Some (''PRE-'' @ padStart 6 ''0'' (String_num (nextBudgetNumber (settings s)))) \<and>
        settings (snd (handleSaveDocument s))
          = (settings s)\<lparr>nextBudgetNumber := nextBudgetNumber (settings s) + 1\<rparr>) \<and>
     (d_type (currentDoc s) \<noteq> Some presupuesto \<longrightarrow>
        d_number (currentDoc (snd (handleSaveDocument s)))
          = Some (''NE-'' @ padStart 6 ''0'' (String_num (nextDeliveryNumber (settings s)))) \<and>
        settings (snd (handleSaveDocument s))
          = (settings s)\<lparr>nextDeliveryNumber := nextDeliveryNumber (settings s) + 1\<rparr>) \<and>
     casticel_settings (storage (snd (handleSaveDocument s)))
       = Some (settingsObject (settings (snd (handleSaveDocument s))))"
  using assms
  by (simp add: save_currentDoc save_settings generateNumber_def Let_def saveSettings_def)

lemma save_persists_doc:
  assumes "\<not> falsy (d_clientName (currentDoc s))"
  shows "currentDoc (snd (handleSaveDocument s))
           \<in> set (getDocuments (storage (snd (handleSaveDocument s))))"
  using assms
  by (simp add: save_currentDoc getDocuments_def save_storage_documents upsert_mem)

lemma save_other_counter:
  "(d_type (currentDoc s) = Some presupuesto \<longrightarrow>
      nextDeliveryNumber (settings (snd (handleSaveDocument s))) = nextDeliveryNumber (settings s)) \<and>
   (d_type (currentDoc s) = Some entrega \<longrightarrow>
      nextBudgetNumber (settings (snd (handleSaveDocument s))) = nextBudgetNumber (settings s))"
proof (cases "falsy (d_clientName (currentDoc s))")
  case True
  then show ?thesis by (simp add: save_blocked)
next
  case False
  then show ?thesis
    by (simp add: save_settings generateNumber_def Let_def)
qed

subsection \<open>The inventory deduction\<close>

lemma deduct_mapFirst:
  "deduct prods it =
     (if i_id it \<noteq> []
      then mapFirst (\<lambda>p. p_id p = i_id it) (\<lambda>p. p\<lparr>p_stock := p_stock p - i_quantity it\<rparr>) prods
      else prods)"
proof (cases "0 \<le> findIndex (\<lambda>p. p_id p = i_id it) prods")
  case True
  then show ?thesis
    using update_findIndex [OF True, of "\<lambda>p. p\<lparr>p_stock := p_stock p - i_quantity it\<rparr>"]
    by (simp add: deduct_def Let_def)
next
  case False
  then have "\<forall>p \<in> set prods. \<not> p_id p = i_id it"
    using findIndex_neg_iff [of "\<lambda>p. p_id p = i_id it" prods] by simp
  then have "mapFirst (\<lambda>p. p_id p = i_id it)
      (\<lambda>p. p\<lparr>p_stock := p_stock p - i_quantity it\<rparr>) prods = prods"
    by (rule mapFirst_none)
  with False show ?thesis by (simp add: deduct_def Let_def)
qed

lemma deduct_map:
  "distinct (map p_id prods) \<Longrightarrow>
     deduct prods it =
       map (\<lambda>p. if i_id it \<noteq> [] \<and> p_id p = i_id it
                then p\<lparr>p_stock := p_stock p - i_quantity it\<rparr> else p) prods"
  by (simp add: deduct_mapFirst mapFirst_distinct)

lemma foldl_deduct_map:
  "distinct (map p_id prods) \<Longrightarrow>
     foldl deduct prods items
       = map (\<lambda>p. p\<lparr>p_stock := p_stock p - linkedQuantity (p_id p) items\<rparr>) prods"
proof (induction items arbitrary: prods)
  case Nil
  show ?case by (simp add: linkedQuantity_def)
next
  case (Cons it items)
  let ?g = "\<lambda>p. if i_id it \<noteq> [] \<and> p_id p = i_id it
                 then p\<lparr>p_stock := p_stock p - i_quantity it\<rparr> else p"
  have ids: "map p_id (map ?g prods) = map p_id prods"
    by (induction prods) simp_all
  have step: "deduct prods it = map ?g prods"
    using Cons.prems by (rule deduct_map)
  have "distinct (map p_id (map ?g prods))"
    using Cons.prems by (simp only: ids)
  then have "foldl deduct (map ?g prods) items
               = map (\<lambda>p. p\<lparr>p_stock := p_stock p - linkedQuantity (p_id p) items\<rparr>) (map ?g prods)"
    by (rule Cons.IH)
  then show ?case
    by (simp add: step linkedQuantity_def)
qed

lemma save_first_delivery:
  assumes "\<not> falsy (d_clientName (currentDoc s))" and "falsy (d_number (currentDoc s))"
    and "d_type (currentDoc s) = Some entrega" and "d_items (currentDoc s) = Some items"
  shows "inventory (snd (handleSaveDocument s)) = foldl deduct (inventory s) items"
    and "getInventory (storage (snd (handleSaveDocument s)))
           = getInventory (foldl (\<lambda>ls p. saveProduct p ls)
               (saveDocument ((currentDoc s)\<lparr>d_number := fst (generateNumber s), d_status := Some final\<rparr>)
                  (storage (snd (generateNumber s))))
               (foldl deduct (inventory s) items))"
  using assms by (simp_all add: handleSaveDocument_def Let_def)

lemma save_no_deduction:
  "d_type (currentDoc s) = Some presupuesto \<or> \<not> falsy (d_number (currentDoc s)) \<Longrightarrow>
     inventory (snd (handleSaveDocument s)) = inventory s \<and>
     casticel_inventory (storage (snd (handleSaveDocument s))) = casticel_inventory (storage s)"
  by (auto simp: handleSaveDocument_def Let_def generateNumber_frame saveDocument_upsert)

text \<open>No save changes which product ids the inventory in memory has, or their order.\<close>

lemma deduct_ids: "map p_id (deduct prods it) = map p_id prods"
  by (simp add: deduct_mapFirst mapFirst_keys)

lemma foldl_deduct_ids: "map p_id (foldl deduct prods items) = map p_id prods"
  by (induction items arbitrary: prods) (simp_all add: deduct_ids)

lemma save_inventory_ids:
  "map p_id (inventory (snd (handleSaveDocument s))) = map p_id (inventory s)"
  by (simp add: handleSaveDocument_def Let_def generateNumber_frame foldl_deduct_ids
        split: option.split)

subsection \<open>The sample drafts\<close>

lemma blankDraft_facts:
  "falsy (d_number (currentDoc blankDraft))" "falsy (d_clientName (currentDoc blankDraft))"
  "settings blankDraft = DEFAULT_SETTINGS"
  "casticel_settings (storage blankDraft) = None"
  "casticel_documents (storage blankDraft) = None"
  by (simp_all add: sample_defs Let_def falsy_def)

lemma quoteDraft_facts:
  "falsy (d_number (currentDoc quoteDraft))" "\<not> falsy (d_clientName (currentDoc quoteDraft))"
  "d_type (currentDoc quoteDraft) = Some presupuesto"
  "settings quoteDraft = DEFAULT_SETTINGS"
  by (simp_all add: sample_defs Let_def falsy_def)

lemma deliveryDraft_facts:
  "falsy (d_number (currentDoc deliveryDraft))" "\<not> falsy (d_clientName (currentDoc deliveryDraft))"
  "d_type (currentDoc deliveryDraft) = Some entrega"
  "d_items (currentDoc deliveryDraft) = Some [cableItem, tubeItem, customItem, goneItem]"
  "settings deliveryDraft = DEFAULT_SETTINGS"
  "inventory deliveryDraft = [cableProduct, tubeProduct]"
  by (simp_all add: sample_defs Let_def falsy_def)

lemma sample_numbers:
  "padStart 6 ''0'' (String_num 1) = ''000001''" "padStart 6 ''0'' (String_num 2) = ''000002''"
  by code_simp+

lemma sample_counters:
  "nextBudgetNumber DEFAULT_SETTINGS = 1" "nextDeliveryNumber DEFAULT_SETTINGS = 1"
  by (simp_all add: DEFAULT_SETTINGS_def)

lemma quoteDraft_saved:
  "d_number (currentDoc (snd (handleSaveDocument quoteDraft))) = Some ''PRE-000001''"
  "settings (snd (handleSaveDocument quoteDraft)) = DEFAULT_SETTINGS\<lparr>nextBudgetNumber := 2\<rparr>"
  "inventory quoteDraft = [cableProduct, tubeProduct]"
  using save_new_number [OF quoteDraft_facts(1,2)]
  by (simp_all add: quoteDraft_facts sample_numbers sample_counters)
     (simp add: sample_defs Let_def)

lemma deliveryDraft_saved:
  "d_number (currentDoc (snd (handleSaveDocument deliveryDraft))) = Some ''NE-000001''"
  "settings (snd (handleSaveDocument deliveryDraft)) = DEFAULT_SETTINGS\<lparr>nextDeliveryNumber := 2\<rparr>"
  using save_new_number [OF deliveryDraft_facts(1,2)]
  by (simp_all add: deliveryDraft_facts sample_numbers sample_counters)

lemma sample_linked:
  "linkedQuantity ''p1'' [cableItem, tubeItem, customItem, goneItem] = 3"
  "linkedQuantity ''p2'' [cableItem, tubeItem, customItem, goneItem] = 2"
  "p_id cableProduct = ''p1''" "p_id tubeProduct = ''p2''"
  "p_stock cableProduct = 10" "p_stock tubeProduct = 1"
  by (simp_all add: linkedQuantity_def sample_defs)

lemma openAndSave_new:
  assumes "falsy (d_number doc)" and "\<not> falsy (d_clientName doc)"
  shows
    "(d_type doc = Some presupuesto \<longrightarrow>
        d_number (currentDoc (openAndSave doc s))
          = Some (''PRE-'' @ padStart 6 ''0'' (String_num (nextBudgetNumber (settings s)))) \<and>
        settings (openAndSave doc s)
          = (settings s)\<lparr>nextBudgetNumber := nextBudgetNumber (settings s) + 1\<rparr>) \<and>
     (d_type doc \<noteq> Some presupuesto \<longrightarrow>
        d_number (currentDoc (openAndSave doc s))
          = Some (''NE-'' @ padStart 6 ''0'' (String_num (nextDeliveryNumber (settings s)))) \<and>
        settings (openAndSave doc s)
          = (settings s)\<lparr>nextDeliveryNumber := nextDeliveryNumber (settings s) + 1\<rparr>) \<and>
     casticel_settings (storage (openAndSave doc s)) = Some (settingsObject (settings (openAndSave doc s)))"
proof -
  have a: "falsy (d_number (currentDoc (s\<lparr>currentDoc := doc\<rparr>)))"
    "\<not> falsy (d_clientName (currentDoc (s\<lparr>currentDoc := doc\<rparr>)))"
    using assms by simp_all
  show ?thesis
    using save_new_number [OF a] by (simp add: openAndSave_def)
qed

lemma copies_facts:
  "falsy (d_number quoteCopy)" "\<not> falsy (d_clientName quoteCopy)"
  "d_type quoteCopy = Some presupuesto"
  "falsy (d_number deliveryCopy)" "\<not> falsy (d_clientName deliveryCopy)"
  "d_type deliveryCopy = Some entrega"
  using quoteDraft_facts deliveryDraft_facts
  by (simp_all add: quoteCopy_def deliveryCopy_def copyDocument_def openAndSave_def
        save_currentDoc)
     (simp_all add: falsy_def)

lemma freshState_settings: "settings freshState = DEFAULT_SETTINGS"
  by (simp add: freshState_def)

section \<open>Properties of saving a document\<close>

text \<open>
  C8. If the draft's client name is empty or absent, the save operation ends with the alert
  "El cliente es obligatorio" and leaves the whole state as it was: the document list, the
  settings with both counters, the inventory and everything in browser storage.
\<close>

theorem handleSaveDocument_client_required:
  "falsy (d_clientName (currentDoc s)) \<Longrightarrow>
     handleSaveDocument s = (Alerted ''El cliente es obligatorio'', s)"
  by (rule save_blocked)

theorem handleSaveDocument_client_required_witness:
  "d_clientName (currentDoc blankDraft) = Some [] \<and>
   falsy (d_clientName (currentDoc blankDraft)) \<and>
   handleSaveDocument blankDraft = (Alerted ''El cliente es obligatorio'', blankDraft) \<and>
   d_clientName (currentDoc freshState) = None \<and>
   falsy (d_clientName (currentDoc freshState)) \<and>
   handleSaveDocument freshState = (Alerted ''El cliente es obligatorio'', freshState)"
proof -
  have b: "falsy (d_clientName (currentDoc blankDraft))"
    and f: "falsy (d_clientName (currentDoc freshState))"
    by (simp_all add: sample_defs falsy_def)
  have "d_clientName (currentDoc blankDraft) = Some []"
    and "d_clientName (currentDoc freshState) = None"
    by (simp_all add: sample_defs)
  then show ?thesis
    using b f handleSaveDocument_client_required [OF b]
      handleSaveDocument_client_required [OF f]
    by simp
qed

text \<open>
  C3 (as stated, refuted). The draft that "Nuevo Doc" creates has no number and an empty
  client name; saving it assigns no number, leaves both counters at 1 and writes nothing.
\<close>

theorem handleSaveDocument_unnamed_draft:
  "falsy (d_number (currentDoc blankDraft)) \<and>
   d_number (currentDoc (snd (handleSaveDocument blankDraft))) = None \<and>
   nextBudgetNumber (settings (snd (handleSaveDocument blankDraft))) = 1 \<and>
   nextDeliveryNumber (settings (snd (handleSaveDocument blankDraft))) = 1 \<and>
   casticel_settings (storage (snd (handleSaveDocument blankDraft))) = None \<and>
   casticel_documents (storage (snd (handleSaveDocument blankDraft))) = None"
  using save_blocked [OF blankDraft_facts(2)]
  by (simp add: blankDraft_facts sample_counters) (simp add: sample_defs Let_def)

text \<open>
  C3 (amended). For every document whose number field is unset and whose client name is
  not empty, the save operation assigns it the number made of the fixed prefix (PRE- for a
  quote, NE- otherwise) and the current counter of that kind (the quote counter for a
  quote, the delivery counter otherwise) padded with zeros on the left to six characters,
  increments exactly that counter by 1, and persists the updated settings; the numbered
  document is in the persisted document list. The padded counter is exactly six characters
  long for counters from 0 to 999999.
\<close>

theorem handleSaveDocument_assigns_number:
  assumes "falsy (d_number (currentDoc s))" and "\<not> falsy (d_clientName (currentDoc s))"
  shows
    "(d_type (currentDoc s) = Some presupuesto \<longrightarrow>
        d_number (currentDoc (snd (handleSaveDocument s)))
          = Some (''PRE-'' @ padStart 6 ''0'' (String_num (nextBudgetNumber (settings s)))) \<and>
        settings (snd (handleSaveDocument s))
          = (settings s)\<lparr>nextBudgetNumber := nextBudgetNumber (settings s) + 1\<rparr>) \<and>
     (d_type (currentDoc s) \<noteq> Some presupuesto \<longrightarrow>
        d_number (currentDoc (snd (handleSaveDocument s)))
          = Some (''NE-'' @ padStart 6 ''0'' (String_num (nextDeliveryNumber (settings s)))) \<and>
        settings (snd (handleSaveDocument s))
          = (settings s)\<lparr>nextDeliveryNumber := nextDeliveryNumber (settings s) + 1\<rparr>) \<and>
     casticel_settings (storage (snd (handleSaveDocument s)))
       = Some (settingsObject (settings (snd (handleSaveDocument s)))) \<and>
     currentDoc (snd (handleSaveDocument s))
       \<in> set (getDocuments (storage (snd (handleSaveDocument s)))) \<and>
     (0 \<le> n \<and> n < 1000000 \<longrightarrow>
        padStart 6 ''0'' (String_num n)
          = replicate (6 - length (String_num n)) CHR ''0'' @ String_num n \<and>
        length (padStart 6 ''0'' (String_num n)) = 6)"
  using save_new_number [OF assms] save_persists_doc [OF assms(2)] number_width [of n]
    padStart_zero [of 6 "String_num n"]
  by simp

theorem handleSaveDocument_assigns_number_witness:
  "falsy (d_number (currentDoc quoteDraft)) \<and> \<not> falsy (d_clientName (currentDoc quoteDraft)) \<and>
   d_type (currentDoc quoteDraft) = Some presupuesto \<and>
   d_number (currentDoc (snd (handleSaveDocument quoteDraft))) = Some ''PRE-000001'' \<and>
   settings (snd (handleSaveDocument quoteDraft)) = DEFAULT_SETTINGS\<lparr>nextBudgetNumber := 2\<rparr> \<and>
   falsy (d_number (currentDoc deliveryDraft)) \<and> \<not> falsy (d_clientName (currentDoc deliveryDraft)) \<and>
   d_type (currentDoc deliveryDraft) \<noteq> Some presupuesto \<and>
   d_number (currentDoc (snd (handleSaveDocument deliveryDraft))) = Some ''NE-000001'' \<and>
   settings (snd (handleSaveDocument deliveryDraft)) = DEFAULT_SETTINGS\<lparr>nextDeliveryNumber := 2\<rparr> \<and>
   length (padStart 6 ''0'' (String_num 2)) = 6"
  using handleSaveDocument_assigns_number [OF quoteDraft_facts(1,2), of 2]
    handleSaveDocument_assigns_number [OF deliveryDraft_facts(1,2), of 2]
  by (simp add: quoteDraft_facts deliveryDraft_facts sample_numbers sample_counters)

text \<open>
  C4. Saving again the document that a save has left in the editor changes nothing at all:
  the state after the second save, browser storage included, is the state after the first,
  so the number, both counters and the persisted document list are the same. After a save
  that passed the client-name check the document has a number; and a save of a document
  that has a number keeps it and leaves the settings, in memory and persisted, as they are.
\<close>

theorem handleSaveDocument_resave:
  "snd (handleSaveDocument (snd (handleSaveDocument s))) = snd (handleSaveDocument s) \<and>
   (\<not> falsy (d_clientName (currentDoc s)) \<longrightarrow>
      \<not> falsy (d_number (currentDoc (snd (handleSaveDocument s))))) \<and>
   (\<not> falsy (d_number (currentDoc s)) \<longrightarrow>
      d_number (currentDoc (snd (handleSaveDocument s))) = d_number (currentDoc s) \<and>
      settings (snd (handleSaveDocument s)) = settings s \<and>
      casticel_settings (storage (snd (handleSaveDocument s))) = casticel_settings (storage s))"
  using save_idem [of s] save_keeps_number [of s] generateNumber_truthy [of s]
  by (simp add: save_currentDoc)

theorem handleSaveDocument_resave_witness:
  "\<not> falsy (d_clientName (currentDoc deliveryDraft)) \<and>
   \<not> falsy (d_number (currentDoc (snd (handleSaveDocument deliveryDraft)))) \<and>
   d_number (currentDoc (snd (handleSaveDocument deliveryDraft))) = Some ''NE-000001'' \<and>
   d_number (currentDoc (snd (handleSaveDocument (snd (handleSaveDocument deliveryDraft)))))
     = Some ''NE-000001'' \<and>
   settings (snd (handleSaveDocument (snd (handleSaveDocument deliveryDraft))))
     = DEFAULT_SETTINGS\<lparr>nextDeliveryNumber := 2\<rparr> \<and>
   getDocuments (storage (snd (handleSaveDocument (snd (handleSaveDocument deliveryDraft)))))
     = getDocuments (storage (snd (handleSaveDocument deliveryDraft)))"
  using handleSaveDocument_resave [of deliveryDraft]
    handleSaveDocument_resave [of "snd (handleSaveDocument deliveryDraft)"]
  by (simp add: deliveryDraft_facts deliveryDraft_saved)

text \<open>
  C6. Saving a quote leaves the delivery counter as it is and saving a delivery note leaves
  the quote counter as it is, whatever else the save does. Finalizing two unnumbered
  documents of the same type one after the other gives the first the current counter value
  n of that type and the second n + 1, and leaves that counter at n + 2 and the other
  counter unchanged; the settings that the second save persists are the settings in memory.
\<close>

theorem handleSaveDocument_counters:
  "(d_type (currentDoc s) = Some presupuesto \<longrightarrow>
      nextDeliveryNumber (settings (snd (handleSaveDocument s))) = nextDeliveryNumber (settings s)) \<and>
   (d_type (currentDoc s) = Some entrega \<longrightarrow>
      nextBudgetNumber (settings (snd (handleSaveDocument s))) = nextBudgetNumber (settings s)) \<and>
   (falsy (d_number docA) \<and> \<not> falsy (d_clientName docA) \<and> d_type docA = Some presupuesto \<and>
    falsy (d_number docB) \<and> \<not> falsy (d_clientName docB) \<and> d_type docB = Some presupuesto \<longrightarrow>
      d_number (currentDoc (openAndSave docA s))
        = Some (''PRE-'' @ padStart 6 ''0'' (String_num (nextBudgetNumber (settings s)))) \<and>
      d_number (currentDoc (openAndSave docB (openAndSave docA s)))
        = Some (''PRE-'' @ padStart 6 ''0'' (String_num (nextBudgetNumber (settings s) + 1))) \<and>
      nextBudgetNumber (settings (openAndSave docB (openAndSave docA s)))
        = nextBudgetNumber (settings s) + 2 \<and>
      nextDeliveryNumber (settings (openAndSave docB (openAndSave docA s)))
        = nextDeliveryNumber (settings s) \<and>
      casticel_settings (storage (openAndSave docB (openAndSave docA s)))
        = Some (settingsObject (settings (openAndSave docB (openAndSave docA s))))) \<and>
   (falsy (d_number docA) \<and> \<not> falsy (d_clientName docA) \<and> d_type docA = Some entrega \<and>
    falsy (d_number docB) \<and> \<not> falsy (d_clientName docB) \<and> d_type docB = Some entrega \<longrightarrow>
      d_number (currentDoc (openAndSave docA s))
        = Some (''NE-'' @ padStart 6 ''0'' (String_num (nextDeliveryNumber (settings s)))) \<and>
      d_number (currentDoc (openAndSave docB (openAndSave docA s)))
        = Some (''NE-'' @ padStart 6 ''0'' (String_num (nextDeliveryNumber (settings s) + 1))) \<and>
      nextDeliveryNumber (settings (openAndSave docB (openAndSave docA s)))
        = nextDeliveryNumber (settings s) + 2 \<and>
      nextBudgetNumber (settings (openAndSave docB (openAndSave docA s)))
        = nextBudgetNumber (settings s) \<and>
      casticel_settings (storage (openAndSave docB (openAndSave docA s)))
        = Some (settingsObject (settings (openAndSave docB (openAndSave docA s)))))"
proof (intro conjI impI)
  show "d_type (currentDoc s) = Some presupuesto \<Longrightarrow>
      nextDeliveryNumber (settings (snd (handleSaveDocument s))) = nextDeliveryNumber (settings s)"
    using save_other_counter [of s] by simp
  show "d_type (currentDoc s) = Some entrega \<Longrightarrow>
      nextBudgetNumber (settings (snd (handleSaveDocument s))) = nextBudgetNumber (settings s)"
    using save_other_counter [of s] by simp
next
  assume a: "falsy (d_number docA) \<and> \<not> falsy (d_clientName docA) \<and> d_type docA = Some presupuesto \<and>
    falsy (d_number docB) \<and> \<not> falsy (d_clientName docB) \<and> d_type docB = Some presupuesto"
  then have A: "falsy (d_number docA)" "\<not> falsy (d_clientName docA)"
    and B: "falsy (d_number docB)" "\<not> falsy (d_clientName docB)" by simp_all
  note one = openAndSave_new [OF A, of s]
  note two = openAndSave_new [OF B, of "openAndSave docA s"]
  show "d_number (currentDoc (openAndSave docA s))
        = Some (''PRE-'' @ padStart 6 ''0'' (String_num (nextBudgetNumber (settings s))))"
    using one a by simp
  show "d_number (currentDoc (openAndSave docB (openAndSave docA s)))
        = Some (''PRE-'' @ padStart 6 ''0'' (String_num (nextBudgetNumber (settings s) + 1)))"
    using one two a by simp
  show "nextBudgetNumber (settings (openAndSave docB (openAndSave docA s)))
        = nextBudgetNumber (settings s) + 2"
    using one two a by simp
  show "nextDeliveryNumber (settings (openAndSave docB (openAndSave docA s)))
        = nextDeliveryNumber (settings s)"
    using one two a by simp
  show "casticel_settings (storage (openAndSave docB (openAndSave docA s)))
        = Some (settingsObject (settings (openAndSave docB (openAndSave docA s))))"
    using two by simp
next
  assume a: "falsy (d_number docA) \<and> \<not> falsy (d_clientName docA) \<and> d_type docA = Some entrega \<and>
    falsy (d_number docB) \<and> \<not> falsy (d_clientName docB) \<and> d_type docB = Some entrega"
  then have A: "falsy (d_number docA)" "\<not> falsy (d_clientName docA)"
    and B: "falsy (d_number docB)" "\<not> falsy (d_clientName docB)" by simp_all
  note one = openAndSave_new [OF A, of s]
  note two = openAndSave_new [OF B, of "openAndSave docA s"]
  show "d_number (currentDoc (openAndSave docA s))
        = Some (''NE-'' @ padStart 6 ''0'' (String_num (nextDeliveryNumber (settings s))))"
    using one a by simp
  show "d_number (currentDoc (openAndSave docB (openAndSave docA s)))
        = Some (''NE-'' @ padStart 6 ''0'' (String_num (nextDeliveryNumber (settings s) + 1)))"
    using one two a by simp
  show "nextDeliveryNumber (settings (openAndSave docB (openAndSave docA s)))
        = nextDeliveryNumber (settings s) + 2"
    using one two a by simp
  show "nextBudgetNumber (settings (openAndSave docB (openAndSave docA s)))
        = nextBudgetNumber (settings s)"
    using one two a by simp
  show "casticel_settings (storage (openAndSave docB (openAndSave docA s)))
        = Some (settingsObject (settings (openAndSave docB (openAndSave docA s))))"
    using two by simp
qed

theorem handleSaveDocument_counters_witness:
  "d_type (currentDoc quoteDraft) = Some presupuesto \<and>
   nextDeliveryNumber (settings (snd (handleSaveDocument quoteDraft))) = 1 \<and>
   d_type (currentDoc deliveryDraft) = Some entrega \<and>
   nextBudgetNumber (settings (snd (handleSaveDocument deliveryDraft))) = 1 \<and>
   falsy (d_number (currentDoc quoteDraft)) \<and> \<not> falsy (d_clientName (currentDoc quoteDraft)) \<and>
   falsy (d_number quoteCopy) \<and> \<not> falsy (d_clientName quoteCopy) \<and>
   d_type quoteCopy = Some presupuesto \<and>
   d_number (currentDoc (openAndSave (currentDoc quoteDraft) freshState)) = Some ''PRE-000001'' \<and>
   d_number (currentDoc (openAndSave quoteCopy (openAndSave (currentDoc quoteDraft) freshState)))
     = Some ''PRE-000002'' \<and>
   nextBudgetNumber (settings (openAndSave quoteCopy (openAndSave (currentDoc quoteDraft) freshState))) = 3 \<and>
   nextDeliveryNumber (settings (openAndSave quoteCopy (openAndSave (currentDoc quoteDraft) freshState))) = 1 \<and>
   falsy (d_number (currentDoc deliveryDraft)) \<and> \<not> falsy (d_clientName (currentDoc deliveryDraft)) \<and>
   falsy (d_number deliveryCopy) \<and> \<not> falsy (d_clientName deliveryCopy) \<and>
   d_type deliveryCopy = Some entrega \<and>
   d_number (currentDoc (openAndSave (currentDoc deliveryDraft) freshState)) = Some ''NE-000001'' \<and>
   d_number (currentDoc (openAndSave deliveryCopy (openAndSave (currentDoc deliveryDraft) freshState)))
     = Some ''NE-000002'' \<and>
   nextDeliveryNumber (settings (openAndSave deliveryCopy (openAndSave (currentDoc deliveryDraft) freshState))) = 3 \<and>
   nextBudgetNumber (settings (openAndSave deliveryCopy (openAndSave (currentDoc deliveryDraft) freshState))) = 1"
  using handleSaveDocument_counters [of quoteDraft "currentDoc quoteDraft" quoteCopy]
    handleSaveDocument_counters [of deliveryDraft "currentDoc deliveryDraft" deliveryCopy]
    handleSaveDocument_counters [of freshState "currentDoc quoteDraft" quoteCopy]
    handleSaveDocument_counters [of freshState "currentDoc deliveryDraft" deliveryCopy]
  by (simp add: quoteDraft_facts deliveryDraft_facts copies_facts freshState_settings
        sample_numbers sample_counters)

text \<open>
  C5. On the first finalization of a delivery note (client name given, no number yet, an
  item list present) with an inventory whose product ids are distinct, every product's
  stock decreases by exactly the total quantity of the line items linked to it, nothing
  else of the product changes, and every updated product is what storage then holds under
  its id. Saving a quote, or a document that already has a number, changes no product, in
  memory or in storage.
\<close>

theorem handleSaveDocument_stock:
  "(\<not> falsy (d_clientName (currentDoc s)) \<and> falsy (d_number (currentDoc s)) \<and>
    d_type (currentDoc s) = Some entrega \<and> d_items (currentDoc s) = Some items \<and>
    distinct (map p_id (inventory s)) \<longrightarrow>
      inventory (snd (handleSaveDocument s))
        = map (\<lambda>p. p\<lparr>p_stock := p_stock p - linkedQuantity (p_id p) items\<rparr>) (inventory s) \<and>
      list_all (\<lambda>p. find (\<lambda>q. p_id q = p_id p)
                       (getInventory (storage (snd (handleSaveDocument s)))) = Some p)
        (inventory (snd (handleSaveDocument s)))) \<and>
   (d_type (currentDoc s) = Some presupuesto \<or> \<not> falsy (d_number (currentDoc s)) \<longrightarrow>
      inventory (snd (handleSaveDocument s)) = inventory s \<and>
      casticel_inventory (storage (snd (handleSaveDocument s))) = casticel_inventory (storage s))"
proof (intro conjI impI)
  assume a: "\<not> falsy (d_clientName (currentDoc s)) \<and> falsy (d_number (currentDoc s)) \<and>
    d_type (currentDoc s) = Some entrega \<and> d_items (currentDoc s) = Some items \<and>
    distinct (map p_id (inventory s))"
  let ?new = "map (\<lambda>p. p\<lparr>p_stock := p_stock p - linkedQuantity (p_id p) items\<rparr>) (inventory s)"
  have deducted: "inventory (snd (handleSaveDocument s)) = foldl deduct (inventory s) items"
    using a by (intro save_first_delivery) simp_all
  also have "\<dots> = ?new"
    using a by (intro foldl_deduct_map) simp
  finally show new: "inventory (snd (handleSaveDocument s)) = ?new" .
  have ids: "map p_id ?new = map p_id (inventory s)"
    by (induction "inventory s") simp_all
  have d: "distinct (map p_id (inventory (snd (handleSaveDocument s))))"
    using a by (simp only: new ids)
  have st: "getInventory (storage (snd (handleSaveDocument s)))
           = getInventory (foldl (\<lambda>ls p. saveProduct p ls)
               (saveDocument ((currentDoc s)\<lparr>d_number := fst (generateNumber s), d_status := Some final\<rparr>)
                  (storage (snd (generateNumber s))))
               (inventory (snd (handleSaveDocument s))))"
    unfolding deducted using a by (intro save_first_delivery) simp_all
  show "list_all (\<lambda>p. find (\<lambda>q. p_id q = p_id p)
                       (getInventory (storage (snd (handleSaveDocument s)))) = Some p)
        (inventory (snd (handleSaveDocument s)))"
    unfolding list_all_iff
  proof
    fix p assume "p \<in> set (inventory (snd (handleSaveDocument s)))"
    with d show "find (\<lambda>q. p_id q = p_id p) (getInventory (storage (snd (handleSaveDocument s)))) = Some p"
      by (subst st) (rule saveProducts_find)
  qed
next
  assume "d_type (currentDoc s) = Some presupuesto \<or> \<not> falsy (d_number (currentDoc s))"
  then show "inventory (snd (handleSaveDocument s)) = inventory s"
    and "casticel_inventory (storage (snd (handleSaveDocument s))) = casticel_inventory (storage s)"
    using save_no_deduction [of s] by simp_all
qed

theorem handleSaveDocument_stock_witness:
  "\<not> falsy (d_clientName (currentDoc deliveryDraft)) \<and> falsy (d_number (currentDoc deliveryDraft)) \<and>
   d_type (currentDoc deliveryDraft) = Some entrega \<and>
   d_items (currentDoc deliveryDraft) = Some [cableItem, tubeItem, customItem, goneItem] \<and>
   distinct (map p_id (inventory deliveryDraft)) \<and>
   i_quantity cableItem = 3 \<and> p_stock cableProduct = 10 \<and>
   inventory (snd (handleSaveDocument deliveryDraft))
     = [cableProduct\<lparr>p_stock := 7\<rparr>, tubeProduct\<lparr>p_stock := - 1\<rparr>] \<and>
   find (\<lambda>q. p_id q = ''p1'') (getInventory (storage (snd (handleSaveDocument deliveryDraft))))
     = Some (cableProduct\<lparr>p_stock := 7\<rparr>) \<and>
   find (\<lambda>q. p_id q = ''p2'') (getInventory (storage (snd (handleSaveDocument deliveryDraft))))
     = Some (tubeProduct\<lparr>p_stock := - 1\<rparr>) \<and>
   \<not> falsy (d_number (currentDoc (snd (handleSaveDocument deliveryDraft)))) \<and>
   inventory (snd (handleSaveDocument (snd (handleSaveDocument deliveryDraft))))
     = [cableProduct\<lparr>p_stock := 7\<rparr>, tubeProduct\<lparr>p_stock := - 1\<rparr>] \<and>
   d_type (currentDoc quoteDraft) = Some presupuesto \<and>
   inventory (snd (handleSaveDocument quoteDraft)) = [cableProduct, tubeProduct]"
proof -
  have d: "distinct (map p_id (inventory deliveryDraft))"
    and q: "i_quantity cableItem = 3"
    by (simp_all add: deliveryDraft_facts) (simp_all add: sample_defs)
  have n: "\<not> falsy (d_number (currentDoc (snd (handleSaveDocument deliveryDraft))))"
    by (simp add: deliveryDraft_saved falsy_def)
  have h: "\<not> falsy (d_clientName (currentDoc deliveryDraft)) \<and>
      falsy (d_number (currentDoc deliveryDraft)) \<and>
      d_type (currentDoc deliveryDraft) = Some entrega \<and>
      d_items (currentDoc deliveryDraft) = Some [cableItem, tubeItem, customItem, goneItem] \<and>
      distinct (map p_id (inventory deliveryDraft))"
    using d by (simp add: deliveryDraft_facts)
  note both = handleSaveDocument_stock [THEN conjunct1, rule_format, OF h]
  have first: "inventory (snd (handleSaveDocument deliveryDraft))
        = [cableProduct\<lparr>p_stock := 7\<rparr>, tubeProduct\<lparr>p_stock := - 1\<rparr>]"
    using both [THEN conjunct1] by (simp add: deliveryDraft_facts sample_linked)
  note stored = both [THEN conjunct2]
  have found: "find (\<lambda>q. p_id q = ''p1'')
        (getInventory (storage (snd (handleSaveDocument deliveryDraft))))
          = Some (cableProduct\<lparr>p_stock := 7\<rparr>)"
      "find (\<lambda>q. p_id q = ''p2'')
        (getInventory (storage (snd (handleSaveDocument deliveryDraft))))
          = Some (tubeProduct\<lparr>p_stock := - 1\<rparr>)"
    using stored unfolding first by (simp_all add: sample_linked)
  have again: "inventory (snd (handleSaveDocument (snd (handleSaveDocument deliveryDraft))))
        = [cableProduct\<lparr>p_stock := 7\<rparr>, tubeProduct\<lparr>p_stock := - 1\<rparr>]"
    using handleSaveDocument_stock [of "snd (handleSaveDocument deliveryDraft)"] n
    by (simp add: first)
  have quote: "inventory (snd (handleSaveDocument quoteDraft)) = [cableProduct, tubeProduct]"
    using handleSaveDocument_stock [of quoteDraft]
    by (simp add: quoteDraft_facts quoteDraft_saved)
  show ?thesis
    using d q n first found again quote
    by (simp add: deliveryDraft_facts quoteDraft_facts sample_linked)
qed

text \<open>
  C10. On the first finalization of a delivery note the inventory becomes the result of
  running the deduction over the line items in order. One step of it, for a line item with
  a non-empty product id whose first match in the inventory is the product p, replaces p by
  p with stock p.stock - quantity and changes nothing else, with no test on the sign of the
  result; a line item with an empty product id, or with an id that no product of the
  inventory has, leaves the inventory as it is.
\<close>

theorem deduct_selective:
  "(\<not> falsy (d_clientName (currentDoc s)) \<and> falsy (d_number (currentDoc s)) \<and>
    d_type (currentDoc s) = Some entrega \<and> d_items (currentDoc s) = Some items \<longrightarrow>
      inventory (snd (handleSaveDocument s)) = foldl deduct (inventory s) items) \<and>
   (i_id it \<noteq> [] \<and> list_all (\<lambda>q. p_id q \<noteq> i_id it) before \<and> p_id p = i_id it \<longrightarrow>
      deduct (before @ p # after) it
        = before @ p\<lparr>p_stock := p_stock p - i_quantity it\<rparr> # after) \<and>
   (i_id it = [] \<longrightarrow> deduct prods it = prods) \<and>
   (list_all (\<lambda>q. p_id q \<noteq> i_id it) prods \<longrightarrow> deduct prods it = prods)"
proof (intro conjI impI)
  assume "\<not> falsy (d_clientName (currentDoc s)) \<and> falsy (d_number (currentDoc s)) \<and>
    d_type (currentDoc s) = Some entrega \<and> d_items (currentDoc s) = Some items"
  then show "inventory (snd (handleSaveDocument s)) = foldl deduct (inventory s) items"
    by (intro save_first_delivery) simp_all
next
  assume "i_id it \<noteq> [] \<and> list_all (\<lambda>q. p_id q \<noteq> i_id it) before \<and> p_id p = i_id it"
  then show "deduct (before @ p # after) it
        = before @ p\<lparr>p_stock := p_stock p - i_quantity it\<rparr> # after"
    by (simp add: deduct_mapFirst mapFirst_at)
next
  assume "i_id it = []"
  then show "deduct prods it = prods" by (simp add: deduct_def)
next
  assume "list_all (\<lambda>q. p_id q \<noteq> i_id it) prods"
  then show "deduct prods it = prods"
    by (simp add: deduct_mapFirst mapFirst_none list_all_iff)
qed

theorem deduct_selective_witness:
  "\<not> falsy (d_clientName (currentDoc deliveryDraft)) \<and> falsy (d_number (currentDoc deliveryDraft)) \<and>
   d_type (currentDoc deliveryDraft) = Some entrega \<and>
   d_items (currentDoc deliveryDraft) = Some [cableItem, tubeItem, customItem, goneItem] \<and>
   inventory (snd (handleSaveDocument deliveryDraft))
     = foldl deduct [cableProduct, tubeProduct] [cableItem, tubeItem, customItem, goneItem] \<and>
   i_id tubeItem \<noteq> [] \<and> list_all (\<lambda>q. p_id q \<noteq> i_id tubeItem) [cableProduct] \<and>
   p_id tubeProduct = i_id tubeItem \<and> p_stock tubeProduct = 1 \<and> i_quantity tubeItem = 2 \<and>
   deduct [cableProduct, tubeProduct] tubeItem = [cableProduct, tubeProduct\<lparr>p_stock := - 1\<rparr>] \<and>
   i_id customItem = [] \<and>
   deduct [cableProduct, tubeProduct] customItem = [cableProduct, tubeProduct] \<and>
   i_id goneItem = ''p9'' \<and> list_all (\<lambda>q. p_id q \<noteq> i_id goneItem) [cableProduct, tubeProduct] \<and>
   deduct [cableProduct, tubeProduct] goneItem = [cableProduct, tubeProduct]"
proof -
  have ids: "i_id tubeItem = ''p2''" "i_id customItem = []" "i_id goneItem = ''p9''"
    "p_id cableProduct = ''p1''" "p_id tubeProduct = ''p2''"
    "p_stock tubeProduct = 1" "i_quantity tubeItem = 2"
    by (simp_all add: sample_defs)
  show ?thesis
    using deduct_selective [of deliveryDraft "[cableItem, tubeItem, customItem, goneItem]"
        tubeItem "[cableProduct]" tubeProduct "[]" "[cableProduct, tubeProduct]"]
      deduct_selective [of deliveryDraft "[cableItem, tubeItem, customItem, goneItem]"
        customItem "[]" cableProduct "[]" "[cableProduct, tubeProduct]"]
      deduct_selective [of deliveryDraft "[cableItem, tubeItem, customItem, goneItem]"
        goneItem "[]" cableProduct "[]" "[cableProduct, tubeProduct]"]
    by (simp add: deliveryDraft_facts ids)
qed

end
